theory Spec2Isabelle
  imports Main
begin

section \<open>Python values, marker text and errors\<close>

text \<open>
  The producer (\<^verbatim>\<open>pyprof/nvtx/nvmarker.py\<close>) builds a dictionary describing one call and
  pushes \<^verbatim>\<open>str(cadena)\<close>; the calculators (\<^verbatim>\<open>pyprof/prof/reduction.py\<close>) read it back with
  \<^verbatim>\<open>eval(d.argMarker[0])\<close> and index the result. Both sides work on untyped Python values,
  so the model has one type of values and every lookup can fail.
\<close>

datatype error =
    AssertionError
  | KeyError
  | IndexError
  | TypeError
  | NameError
  | UnknownDtypeError

text \<open>A double: a finite value \<open>m * 2^e\<close>, or one of the three special values.\<close>

datatype pyfloat = Finite int int | PosInf | NegInf | NaN

text \<open>
  \<open>PDict\<close> keeps insertion order, as Python's \<^verbatim>\<open>dict\<close> does; every dictionary of a marker
  has string keys. \<open>PObj\<close> is an object of any other type (a tensor, an array, a dtype).
\<close>

datatype pyval =
    PNone
  | PBool bool
  | PInt int
  | PFloat pyfloat
  | PStr string
  | PTuple "pyval list"
  | PList "pyval list"
  | PDict "(string \<times> pyval) list"
  | PObj

text \<open>
  The text of a marker, as the expression it parses to. \<open>EInt\<close>, \<open>EFloat\<close>, \<open>EStr\<close>, \<open>ENone\<close>
  and \<open>EBool\<close> are constants; \<open>EName\<close> is a name that the module \<^verbatim>\<open>reduction.py\<close> does not
  bind (\<^verbatim>\<open>inf\<close>, \<open>nan\<close>); \<open>ENeg\<close> is unary minus; \<open>EIfExp a c b\<close> is \<^verbatim>\<open>a if c else b\<close>;
  \<open>EDict\<close> is a dictionary display whose keys are string constants; \<open>EOpaque\<close> is the text
  that \<^verbatim>\<open>repr\<close> gives for an object of another type, such as \<^verbatim>\<open>tensor([1., 2.])\<close>. Such a
  text does not evaluate: it calls a name that is not bound (\<^verbatim>\<open>NameError\<close>) or is no
  expression at all (\<^verbatim>\<open>SyntaxError\<close>); the model records both as \<open>NameError\<close>.
\<close>

datatype pyexpr =
    ENone
  | EBool bool
  | EInt nat
  | EFloat pyfloat
  | EStr string
  | EName string
  | ENeg pyexpr
  | EIfExp pyexpr pyexpr pyexpr
  | ETuple "pyexpr list"
  | EList "pyexpr list"
  | EDict "(string \<times> pyexpr) list"
  | EOpaque

text \<open>Sequencing of steps that may raise: the first error ends the computation.\<close>

fun ebind :: "error + 'a \<Rightarrow> ('a \<Rightarrow> error + 'b) \<Rightarrow> error + 'b" where
  "ebind (Inl e) f = Inl e"
| "ebind (Inr x) f = f x"

text \<open>\<^verbatim>\<open>assert (c)\<close>\<close>

definition py_assert :: "bool \<Rightarrow> error + unit" where
  "py_assert c = (if c then Inr () else Inl AssertionError)"

subsection \<open>Dictionaries\<close>

text \<open>\<^verbatim>\<open>a[k] = v\<close>: an existing key keeps its position, a new key goes last.\<close>

fun dict_set :: "(string \<times> pyval) list \<Rightarrow> string \<Rightarrow> pyval \<Rightarrow> (string \<times> pyval) list" where
  "dict_set [] k v = [(k, v)]"
| "dict_set ((k', v') # kvs) k v =
     (if k' = k then (k, v) # kvs else (k', v') # dict_set kvs k v)"

fun dict_get :: "(string \<times> pyval) list \<Rightarrow> string \<Rightarrow> error + pyval" where
  "dict_get [] k = Inl KeyError"
| "dict_get ((k', v') # kvs) k = (if k' = k then Inr v' else dict_get kvs k)"

fun dict_has :: "(string \<times> pyval) list \<Rightarrow> string \<Rightarrow> bool" where
  "dict_has [] k = False"
| "dict_has ((k', v') # kvs) k = (k' = k \<or> dict_has kvs k)"

subsection \<open>Subscription, length, iteration, membership\<close>

text \<open>\<^verbatim>\<open>x[k]\<close> with a string \<open>k\<close>: only a dictionary can be indexed by a string.\<close>

fun py_getitem :: "pyval \<Rightarrow> string \<Rightarrow> error + pyval" where
  "py_getitem (PDict kvs) k = dict_get kvs k"
| "py_getitem _ k = Inl TypeError"

text \<open>
  \<^verbatim>\<open>x[0]\<close>: the first element of a sequence or string; a dictionary with string keys has
  no key \<open>0\<close>.
\<close>

fun py_getitem0 :: "pyval \<Rightarrow> error + pyval" where
  "py_getitem0 (PTuple []) = Inl IndexError"
| "py_getitem0 (PTuple (v # vs)) = Inr v"
| "py_getitem0 (PList []) = Inl IndexError"
| "py_getitem0 (PList (v # vs)) = Inr v"
| "py_getitem0 (PStr []) = Inl IndexError"
| "py_getitem0 (PStr (c # cs)) = Inr (PStr [c])"
| "py_getitem0 (PDict kvs) = Inl KeyError"
| "py_getitem0 _ = Inl TypeError"

text \<open>\<^verbatim>\<open>len(x)\<close>\<close>

fun py_len :: "pyval \<Rightarrow> error + nat" where
  "py_len (PTuple vs) = Inr (length vs)"
| "py_len (PList vs) = Inr (length vs)"
| "py_len (PStr s) = Inr (length s)"
| "py_len (PDict kvs) = Inr (length kvs)"
| "py_len _ = Inl TypeError"

text \<open>
  The elements that iterating over \<open>x\<close> yields: a string yields its characters, a
  dictionary its keys.
\<close>

fun py_iter :: "pyval \<Rightarrow> error + pyval list" where
  "py_iter (PTuple vs) = Inr vs"
| "py_iter (PList vs) = Inr vs"
| "py_iter (PStr s) = Inr (map (\<lambda>c. PStr [c]) s)"
| "py_iter (PDict kvs) = Inr (map (\<lambda>kv. PStr (fst kv)) kvs)"
| "py_iter _ = Inl TypeError"

fun is_prefix :: "string \<Rightarrow> string \<Rightarrow> bool" where
  "is_prefix [] s = True"
| "is_prefix (c # cs) [] = False"
| "is_prefix (c # cs) (d # ds) = (c = d \<and> is_prefix cs ds)"

fun is_substring :: "string \<Rightarrow> string \<Rightarrow> bool" where
  "is_substring k [] = (k = [])"
| "is_substring k (d # ds) = (is_prefix k (d # ds) \<or> is_substring k ds)"

text \<open>
  \<^verbatim>\<open>k in x\<close> with a string \<open>k\<close>: a key of a dictionary, an element of a sequence, a
  substring of a string.
\<close>

fun py_contains :: "string \<Rightarrow> pyval \<Rightarrow> error + bool" where
  "py_contains k (PDict kvs) = Inr (dict_has kvs k)"
| "py_contains k (PTuple vs) = Inr (List.member vs (PStr k))"
| "py_contains k (PList vs) = Inr (List.member vs (PStr k))"
| "py_contains k (PStr s) = Inr (is_substring k s)"
| "py_contains k _ = Inl TypeError"

text \<open>
  \<^verbatim>\<open>list(filter(lambda x: x['name'] == n, xs))\<close> over the elements \<open>xs\<close>: the lookup
  \<^verbatim>\<open>x['name']\<close> is made for every element, and the first one that fails raises.
\<close>

fun filter_name :: "string \<Rightarrow> pyval list \<Rightarrow> error + pyval list" where
  "filter_name n [] = Inr []"
| "filter_name n (x # xs) =
     ebind (py_getitem x ''name'') (\<lambda>nm.
     ebind (filter_name n xs) (\<lambda>ys.
     Inr (if nm = PStr n then x # ys else ys)))"

subsection \<open>\<^verbatim>\<open>eval\<close> and \<^verbatim>\<open>str\<close>\<close>

fun float_neg :: "pyfloat \<Rightarrow> pyfloat" where
  "float_neg (Finite m e) = Finite (- m) e"
| "float_neg PosInf = NegInf"
| "float_neg NegInf = PosInf"
| "float_neg NaN = NaN"

text \<open>Unary minus: defined on numbers (a \<^verbatim>\<open>bool\<close> is an \<^verbatim>\<open>int\<close>).\<close>

fun py_neg :: "pyval \<Rightarrow> error + pyval" where
  "py_neg (PInt n) = Inr (PInt (- n))"
| "py_neg (PBool b) = Inr (PInt (if b then - 1 else 0))"
| "py_neg (PFloat f) = Inr (PFloat (float_neg f))"
| "py_neg _ = Inl TypeError"

text \<open>Truth value of an object in a condition.\<close>

fun truthy :: "pyval \<Rightarrow> bool" where
  "truthy PNone = False"
| "truthy (PBool b) = b"
| "truthy (PInt n) = (n \<noteq> 0)"
| "truthy (PFloat (Finite m e)) = (m \<noteq> 0)"
| "truthy (PFloat _) = True"
| "truthy (PStr s) = (s \<noteq> [])"
| "truthy (PTuple vs) = (vs \<noteq> [])"
| "truthy (PList vs) = (vs \<noteq> [])"
| "truthy (PDict kvs) = (kvs \<noteq> [])"
| "truthy PObj = True"

text \<open>
  \<^verbatim>\<open>eval(text)\<close>: constants denote themselves, a name that is not bound raises
  \<^verbatim>\<open>NameError\<close>, operators are executed, displays are built from left to right.
\<close>

fun py_eval :: "pyexpr \<Rightarrow> error + pyval"
  and py_eval_list :: "pyexpr list \<Rightarrow> error + pyval list"
  and py_eval_items :: "(string \<times> pyexpr) list \<Rightarrow> (string \<times> pyval) list
        \<Rightarrow> error + (string \<times> pyval) list"
where
  "py_eval ENone = Inr PNone"
| "py_eval (EBool b) = Inr (PBool b)"
| "py_eval (EInt n) = Inr (PInt (int n))"
| "py_eval (EFloat f) = Inr (PFloat f)"
| "py_eval (EStr s) = Inr (PStr s)"
| "py_eval (EName n) = Inl NameError"
| "py_eval (ENeg e) = ebind (py_eval e) py_neg"
| "py_eval (EIfExp a c b) =
     ebind (py_eval c) (\<lambda>v. if truthy v then py_eval a else py_eval b)"
| "py_eval (ETuple es) = ebind (py_eval_list es) (\<lambda>vs. Inr (PTuple vs))"
| "py_eval (EList es) = ebind (py_eval_list es) (\<lambda>vs. Inr (PList vs))"
| "py_eval (EDict kes) = ebind (py_eval_items kes []) (\<lambda>kvs. Inr (PDict kvs))"
| "py_eval EOpaque = Inl NameError"
| "py_eval_list [] = Inr []"
| "py_eval_list (e # es) =
     ebind (py_eval e) (\<lambda>v. ebind (py_eval_list es) (\<lambda>vs. Inr (v # vs)))"
| "py_eval_items [] acc = Inr acc"
| "py_eval_items ((k, e) # kes) acc =
     ebind (py_eval e) (\<lambda>v. py_eval_items kes (dict_set acc k v))"

text \<open>
  \<^verbatim>\<open>repr\<close> of a double: a negative number is a minus sign before a constant; infinity and
  not-a-number print as the bare words \<^verbatim>\<open>inf\<close> and \<^verbatim>\<open>nan\<close>, which read back as names.
\<close>

fun float_repr :: "pyfloat \<Rightarrow> pyexpr" where
  "float_repr (Finite m e) =
     (if m < 0 then ENeg (EFloat (Finite (- m) e)) else EFloat (Finite m e))"
| "float_repr PosInf = EName ''inf''"
| "float_repr NegInf = ENeg (EName ''inf'')"
| "float_repr NaN = EName ''nan''"

text \<open>\<^verbatim>\<open>str(v)\<close> of a value (for containers, \<^verbatim>\<open>repr\<close> of every element).\<close>

fun py_str :: "pyval \<Rightarrow> pyexpr" where
  "py_str PNone = ENone"
| "py_str (PBool b) = EBool b"
| "py_str (PInt n) = (if n < 0 then ENeg (EInt (nat (- n))) else EInt (nat n))"
| "py_str (PFloat f) = float_repr f"
| "py_str (PStr s) = EStr s"
| "py_str (PTuple vs) = ETuple (map py_str vs)"
| "py_str (PList vs) = EList (map py_str vs)"
| "py_str (PDict kvs) = EDict (map (\<lambda>kv. (fst kv, py_str (snd kv))) kvs)"
| "py_str PObj = EOpaque"

section \<open>The producer: \<^verbatim>\<open>argMarker\<close>\<close>

text \<open>
  The arguments of an intercepted call. A scalar is an \<^verbatim>\<open>int\<close>, a \<^verbatim>\<open>float\<close>, a \<^verbatim>\<open>bool\<close>,
  \<^verbatim>\<open>None\<close> or a \<^verbatim>\<open>str\<close>. Of a tensor the producer reads \<^verbatim>\<open>size()\<close>, \<^verbatim>\<open>str(dtype)\<close> and, when
  it has no dimension, \<^verbatim>\<open>item()\<close>; of an array \<^verbatim>\<open>shape\<close> and \<^verbatim>\<open>str(dtype)\<close>.
\<close>

datatype pyscalar = SInt int | SFloat pyfloat | SBool bool | SNone | SStr string

datatype torch_tensor =
  TorchTensor (tensor_size: "nat list") (tensor_dtype: string) (tensor_item: pyscalar)

datatype np_array = NpArray (array_shape: "nat list") (array_dtype: string)

datatype seqkind = IsList | IsTuple

datatype pyarg =
    Tensor torch_tensor
  | NDArray np_array
  | Scalar pyscalar
  | Seq seqkind "pyarg list"
  | Other

text \<open>\<^verbatim>\<open>s.split(sep)\<close>: the pieces between the separators, never an empty list.\<close>

fun py_split :: "char \<Rightarrow> string \<Rightarrow> string list" where
  "py_split sep [] = [[]]"
| "py_split sep (c # cs) =
     (if c = sep then [] # py_split sep cs
      else (case py_split sep cs of [] \<Rightarrow> [[c]] | p # ps \<Rightarrow> (c # p) # ps))"

text \<open>\<^verbatim>\<open>str(arg.dtype).split(".")[-1]\<close>\<close>

definition dtype_name :: "string \<Rightarrow> string" where
  "dtype_name s = last (py_split CHR ''.'' s)"

definition dims :: "nat list \<Rightarrow> pyval" where
  "dims ns = PTuple (map (\<lambda>n. PInt (int n)) ns)"

fun scalar_val :: "pyscalar \<Rightarrow> pyval" where
  "scalar_val (SInt n) = PInt n"
| "scalar_val (SFloat f) = PFloat f"
| "scalar_val (SBool b) = PBool b"
| "scalar_val SNone = PNone"
| "scalar_val (SStr s) = PStr s"

text \<open>The object itself, as it is stored in a descriptor's \<^verbatim>\<open>value\<close>.\<close>

fun obj_val :: "pyarg \<Rightarrow> pyval" where
  "obj_val (Scalar s) = scalar_val s"
| "obj_val (Seq IsList xs) = PList (map obj_val xs)"
| "obj_val (Seq IsTuple xs) = PTuple (map obj_val xs)"
| "obj_val (Tensor t) = PObj"
| "obj_val (NDArray a) = PObj"
| "obj_val Other = PObj"

text \<open>\<^verbatim>\<open>type(arg).__name__\<close>\<close>

fun type_name :: "pyscalar \<Rightarrow> string" where
  "type_name (SInt n) = ''int''"
| "type_name (SFloat f) = ''float''"
| "type_name (SBool b) = ''bool''"
| "type_name SNone = ''NoneType''"
| "type_name (SStr s) = ''str''"

text \<open>
  The four local functions that describe one argument. Each ends with
  \<^verbatim>\<open>cadena['args'].append(a)\<close>: the list \<open>cargs\<close> is passed in and returned extended.
\<close>

definition tensor :: "torch_tensor \<Rightarrow> string \<Rightarrow> pyval list \<Rightarrow> pyval list" where
  "tensor arg name cargs =
     (let a = [];
          a = dict_set a ''name'' (PStr name);
          a = dict_set a ''type'' (PStr ''tensor'');
          a = dict_set a ''shape'' (dims (tensor_size arg));
          a = dict_set a ''dtype'' (PStr (dtype_name (tensor_dtype arg)))
      in cargs @ [PDict a])"

definition ndarray :: "np_array \<Rightarrow> string \<Rightarrow> pyval list \<Rightarrow> pyval list" where
  "ndarray arg name cargs =
     (let a = [];
          a = dict_set a ''name'' (PStr name);
          a = dict_set a ''type'' (PStr ''ndarray'');
          a = dict_set a ''shape'' (dims (array_shape arg));
          a = dict_set a ''dtype'' (PStr (dtype_name (array_dtype arg)))
      in cargs @ [PDict a])"

definition seq :: "seqkind \<Rightarrow> pyarg list \<Rightarrow> string \<Rightarrow> pyval list \<Rightarrow> pyval list" where
  "seq kind xs name cargs =
     (let a = [];
          a = dict_set a ''name'' (PStr name);
          a = (case kind of
                 IsList \<Rightarrow>
                   dict_set (dict_set a ''type'' (PStr ''list'')) ''value'' (PList (map obj_val xs))
               | IsTuple \<Rightarrow>
                   dict_set (dict_set a ''type'' (PStr ''tuple'')) ''value''
                     (PTuple (map obj_val xs)))
      in cargs @ [PDict a])"

definition scalar :: "pyscalar \<Rightarrow> string \<Rightarrow> pyval list \<Rightarrow> pyval list" where
  "scalar arg name cargs =
     (let a = [];
          a = dict_set a ''name'' (PStr name);
          a = dict_set a ''type'' (PStr (type_name arg));
          a = (if arg = SFloat PosInf then dict_set a ''value'' (PStr ''inf'')
               else if arg = SFloat NegInf then dict_set a ''value'' (PStr ''-inf'')
               else if arg = SFloat NaN then dict_set a ''value'' (PStr ''nan'')
               else dict_set a ''value'' (scalar_val arg))
      in cargs @ [PDict a])"

fun isscalar :: "pyarg \<Rightarrow> bool" where
  "isscalar (Scalar s) = True"
| "isscalar _ = False"

fun issequence :: "pyarg \<Rightarrow> bool" where
  "issequence (Seq kind xs) = True"
| "issequence _ = False"

text \<open>
  \<^verbatim>\<open>foo(args, name)\<close>: one descriptor for each argument, in order. A sequence that is empty
  or starts with a scalar is one descriptor; any other sequence is flattened. An object of
  another type leaves no descriptor.
\<close>

fun foo :: "pyarg list \<Rightarrow> string \<Rightarrow> pyval list \<Rightarrow> pyval list"
  and foo_arg :: "pyarg \<Rightarrow> string \<Rightarrow> pyval list \<Rightarrow> pyval list"
where
  "foo [] name cargs = cargs"
| "foo (arg # rest) name cargs = foo rest name (foo_arg arg name cargs)"
| "foo_arg (Tensor t) name cargs =
     (if length (tensor_size t) = 0 then scalar (tensor_item t) name cargs
      else tensor t name cargs)"
| "foo_arg (NDArray a) name cargs = ndarray a name cargs"
| "foo_arg (Scalar s) name cargs = scalar s name cargs"
| "foo_arg (Seq kind xs) name cargs =
     (case xs of
        [] \<Rightarrow> seq kind xs name cargs
      | x # _ \<Rightarrow> if isscalar x then seq kind xs name cargs else foo xs name cargs)"
| "foo_arg Other name cargs = cargs"

text \<open>
  \<^verbatim>\<open>argMarker(mod, op, args, kwargs)\<close>, with \<open>mod_name\<close> for \<^verbatim>\<open>mod.__name__\<close> and the
  keyword arguments in the order of \<^verbatim>\<open>kwargs.items()\<close>.
\<close>

fun foo_kwargs :: "(string \<times> pyarg) list \<Rightarrow> pyval list \<Rightarrow> pyval list" where
  "foo_kwargs [] cargs = cargs"
| "foo_kwargs ((k, v) # kwargs) cargs = foo_kwargs kwargs (foo [v] k cargs)"

definition cadena_of :: "string \<Rightarrow> string \<Rightarrow> pyarg list \<Rightarrow> (string \<times> pyarg) list \<Rightarrow> pyval" where
  "cadena_of mod_name opn pargs kwargs =
     (let cadena = [];
          cadena = dict_set cadena ''mod'' (PStr mod_name);
          cadena = dict_set cadena ''op'' (PStr opn);
          cadena = dict_set cadena ''args'' (PList (foo_kwargs kwargs (foo pargs [] [])))
      in PDict cadena)"

definition argMarker :: "string \<Rightarrow> string \<Rightarrow> pyarg list \<Rightarrow> (string \<times> pyarg) list \<Rightarrow> pyexpr" where
  "argMarker mod_name opn pargs kwargs = py_str (cadena_of mod_name opn pargs kwargs)"

section \<open>The calculators: \<^verbatim>\<open>Mean\<close>, \<^verbatim>\<open>Sum\<close>, \<^verbatim>\<open>Norm\<close>\<close>

text \<open>
  Modelled from the spec: \<^verbatim>\<open>Utility.numElems\<close> is imported from \<^verbatim>\<open>utility\<close>, which is not
  among the sources. The spec gives it as the product of the shape's dimensions, 1 for the
  empty shape, on an ordered sequence of integers; no count is defined for anything else.
\<close>

fun int_dims :: "pyval list \<Rightarrow> error + int list" where
  "int_dims [] = Inr []"
| "int_dims (PInt n # vs) = ebind (int_dims vs) (\<lambda>ns. Inr (n # ns))"
| "int_dims (_ # vs) = Inl TypeError"

fun numElems :: "pyval \<Rightarrow> error + int" where
  "numElems (PTuple vs) = ebind (int_dims vs) (\<lambda>ns. Inr (prod_list ns))"
| "numElems (PList vs) = ebind (int_dims vs) (\<lambda>ns. Inr (prod_list ns))"
| "numElems _ = Inl TypeError"

text \<open>
  Modelled from the spec: \<^verbatim>\<open>Utility.typeToBytes\<close> is imported from \<^verbatim>\<open>utility\<close>, which is
  not among the sources. The spec gives a table from dtype name to byte width with the
  entries 4 for 32-bit float, 2 for 16-bit float, 8 for 64-bit integer and 1 for boolean,
  and an error for a dtype that is not in the table. The names are those the producer
  writes for these dtypes.
\<close>

fun typeToBytes :: "pyval \<Rightarrow> error + int" where
  "typeToBytes (PStr t) =
     (if t = ''float32'' then Inr 4
      else if t = ''float16'' then Inr 2
      else if t = ''int64'' then Inr 8
      else if t = ''bool'' then Inr 1
      else Inl UnknownDtypeError)"
| "typeToBytes _ = Inl UnknownDtypeError"

text \<open>The trace row \<open>d\<close> handed to a constructor: \<^verbatim>\<open>d.argMarker\<close>, \<^verbatim>\<open>d.dir\<close>, \<^verbatim>\<open>d.sub\<close>.\<close>

record trace_row =
  row_argMarker :: "pyexpr list"
  row_dir :: string
  row_sub :: int

text \<open>The attributes that the three constructors set; \<^verbatim>\<open>Mean\<close> also keeps \<^verbatim>\<open>d.dir\<close>.\<close>

record layer =
  marker :: pyval
  mod_ :: pyval
  op_ :: pyval
  args :: pyval
  shape :: pyval
  type :: pyval
  sub :: int

record Mean = layer +
  dir :: string

type_synonym Sum = layer

type_synonym Norm = layer

text \<open>\<^verbatim>\<open>xs[0]\<close> on a list\<close>

fun first :: "'a list \<Rightarrow> error + 'a" where
  "first [] = Inl IndexError"
| "first (x # xs) = Inr x"

definition Mean_init :: "trace_row \<Rightarrow> error + Mean" where
  "Mean_init d =
     ebind (first (row_argMarker d)) (\<lambda>text.
     ebind (py_eval text) (\<lambda>m.
     ebind (py_getitem m ''mod'') (\<lambda>md.
     ebind (py_getitem m ''op'') (\<lambda>opn.
     ebind (py_getitem m ''args'') (\<lambda>as.
     ebind (py_assert (md = PStr ''torch'' \<or> md = PStr ''Tensor'')) (\<lambda>_.
     ebind (py_assert (opn = PStr ''mean'')) (\<lambda>_.
     ebind (py_iter as) (\<lambda>xs.
     ebind (filter_name '''' xs) (\<lambda>pos.
     ebind (py_assert (length pos \<le> 2)) (\<lambda>_.
     ebind (first pos) (\<lambda>i.
     ebind (py_contains ''shape'' i) (\<lambda>has_shape.
     if has_shape then
       ebind (py_getitem i ''shape'') (\<lambda>sh.
       ebind (py_getitem i ''dtype'') (\<lambda>ty.
       Inr \<lparr>marker = m, mod_ = md, op_ = opn, args = as, shape = sh, type = ty,
            sub = row_sub d, dir = row_dir d\<rparr>))
     else
       ebind (py_contains ''value'' i) (\<lambda>has_value.
       ebind (py_assert has_value) (\<lambda>_.
       ebind (py_getitem i ''type'') (\<lambda>ty.
       Inr \<lparr>marker = m, mod_ = md, op_ = opn, args = as, shape = PTuple [PInt 1], type = ty,
            sub = row_sub d, dir = row_dir d\<rparr>)))))))))))))))"

definition Mean_elems :: "Mean \<Rightarrow> error + int" where
  "Mean_elems c = numElems (shape c)"

definition Mean_bytes :: "Mean \<Rightarrow> error + int" where
  "Mean_bytes c =
     (if sub c = 0 then
        ebind (Mean_elems c) (\<lambda>n. ebind (typeToBytes (type c)) (\<lambda>w. Inr (n * w)))
      else Inr 0)"

definition Mean_flops :: "Mean \<Rightarrow> error + int" where
  "Mean_flops c =
     (if sub c = 0 then ebind (Mean_elems c) (\<lambda>n. Inr (n + 1)) else Inr 0)"

definition Sum_init :: "trace_row \<Rightarrow> error + Sum" where
  "Sum_init d =
     ebind (first (row_argMarker d)) (\<lambda>text.
     ebind (py_eval text) (\<lambda>m.
     ebind (py_getitem m ''mod'') (\<lambda>md.
     ebind (py_getitem m ''op'') (\<lambda>opn.
     ebind (py_getitem m ''args'') (\<lambda>as.
     ebind (py_assert (md = PStr ''torch'' \<or> md = PStr ''Tensor'')) (\<lambda>_.
     ebind (py_assert (opn = PStr ''sum'')) (\<lambda>_.
     ebind (py_len as) (\<lambda>n.
     ebind (py_assert (n \<ge> 1)) (\<lambda>_.
     ebind (py_getitem0 as) (\<lambda>a0.
     ebind (py_getitem a0 ''name'') (\<lambda>nm.
     ebind (if nm = PStr '''' then Inr a0
            else ebind (py_iter as) (\<lambda>xs.
                 ebind (filter_name ''input'' xs) first)) (\<lambda>i.
     ebind (py_getitem i ''shape'') (\<lambda>sh.
     ebind (py_getitem i ''dtype'') (\<lambda>ty.
     Inr \<lparr>marker = m, mod_ = md, op_ = opn, args = as, shape = sh, type = ty,
          sub = row_sub d\<rparr>))))))))))))))"

definition Sum_elems :: "Sum \<Rightarrow> error + int" where
  "Sum_elems c = numElems (shape c)"

definition Sum_flops :: "Sum \<Rightarrow> error + int" where
  "Sum_flops c = Sum_elems c"

definition Sum_bytes :: "Sum \<Rightarrow> error + int" where
  "Sum_bytes c =
     ebind (Sum_elems c) (\<lambda>n.
     ebind (typeToBytes (type c)) (\<lambda>w.
     let b = n * w in if sub c = 0 then Inr b else Inr 0))"

definition Norm_init :: "trace_row \<Rightarrow> error + Norm" where
  "Norm_init d =
     ebind (first (row_argMarker d)) (\<lambda>text.
     ebind (py_eval text) (\<lambda>m.
     ebind (py_getitem m ''mod'') (\<lambda>md.
     ebind (py_getitem m ''op'') (\<lambda>opn.
     ebind (py_getitem m ''args'') (\<lambda>as.
     ebind (py_assert (md = PStr ''torch'' \<or> md = PStr ''Tensor'')) (\<lambda>_.
     ebind (py_assert (opn = PStr ''norm'')) (\<lambda>_.
     ebind (py_getitem0 as) (\<lambda>i.
     ebind (py_getitem i ''shape'') (\<lambda>sh.
     ebind (py_getitem i ''dtype'') (\<lambda>ty.
     Inr \<lparr>marker = m, mod_ = md, op_ = opn, args = as, shape = sh, type = ty,
          sub = row_sub d\<rparr>))))))))))"

definition Norm_elems :: "Norm \<Rightarrow> error + int" where
  "Norm_elems c = numElems (shape c)"

definition Norm_bytes :: "Norm \<Rightarrow> error + int" where
  "Norm_bytes c =
     ebind (Norm_elems c) (\<lambda>n.
     ebind (typeToBytes (type c)) (\<lambda>w.
     let b = n * w in if sub c = 0 then Inr b else Inr 0))"

definition Norm_flops :: "Norm \<Rightarrow> error + int" where
  "Norm_flops c =
     ebind (Norm_elems c) (\<lambda>n.
     let f = 2 * n + 1 in if sub c = 0 then Inr f else Inr 0)"

section \<open>Example rows\<close>

subsection \<open>A call on one tensor\<close>

text \<open>
  The trace row of \<^verbatim>\<open>torch.opn(x)\<close> for a tensor \<open>x\<close> of size \<open>sz\<close> and dtype \<open>dt\<close>, at
  nesting level \<open>s\<close>, with the marker that \<open>argMarker\<close> writes for the call; and the
  attributes that a constructor sets from it.
\<close>

definition tensor_row :: "string \<Rightarrow> nat list \<Rightarrow> string \<Rightarrow> int \<Rightarrow> trace_row" where
  "tensor_row opn sz dt s =
     \<lparr>row_argMarker =
        [argMarker ''torch'' opn [Tensor (TorchTensor sz dt (SFloat (Finite 0 0)))] []],
      row_dir = ''fprop'', row_sub = s\<rparr>"

definition tensor_layer :: "string \<Rightarrow> int list \<Rightarrow> string \<Rightarrow> int \<Rightarrow> layer" where
  "tensor_layer opn sz dt s =
     (let a = PList [PDict [(''name'', PStr []), (''type'', PStr ''tensor''),
                            (''shape'', PTuple (map PInt sz)), (''dtype'', PStr dt)]]
      in \<lparr>marker = PDict [(''mod'', PStr ''torch''), (''op'', PStr opn), (''args'', a)],
          mod_ = PStr ''torch'', op_ = PStr opn, args = a,
          shape = PTuple (map PInt sz), type = PStr dt, sub = s\<rparr>)"

subsection \<open>Any call\<close>

text \<open>
  The trace row of \<^verbatim>\<open>torch.opn(*pargs, **kwargs)\<close> at nesting level \<open>lvl\<close>, and the
  descriptor that \<open>tensor\<close> writes for a tensor passed under the name \<open>name\<close>.
\<close>

definition call_row :: "string \<Rightarrow> pyarg list \<Rightarrow> (string \<times> pyarg) list \<Rightarrow> int \<Rightarrow> trace_row" where
  "call_row opn pargs kwargs lvl =
     \<lparr>row_argMarker = [argMarker ''torch'' opn pargs kwargs], row_dir = ''fprop'',
      row_sub = lvl\<rparr>"

definition named_tensor :: "string \<Rightarrow> int list \<Rightarrow> string \<Rightarrow> pyval" where
  "named_tensor name sz dt =
     PDict [(''name'', PStr name), (''type'', PStr ''tensor''),
            (''shape'', PTuple (map PInt sz)), (''dtype'', PStr dt)]"

text \<open>The value that \<open>scalar\<close> stores for a scalar, and the descriptor it appends.\<close>

definition stored_value :: "pyscalar \<Rightarrow> pyval" where
  "stored_value s =
     (if s = SFloat PosInf then PStr ''inf''
      else if s = SFloat NegInf then PStr ''-inf''
      else if s = SFloat NaN then PStr ''nan''
      else scalar_val s)"

definition scalar_desc :: "string \<Rightarrow> pyscalar \<Rightarrow> pyval" where
  "scalar_desc name s =
     PDict [(''name'', PStr name), (''type'', PStr (type_name s)), (''value'', stored_value s)]"

section \<open>The decoder that the specification asks for\<close>

text \<open>
  The specification asks for a structured parser in place of \<^verbatim>\<open>eval\<close>: it reads a text
  that is a literal (constants, signed numbers, tuples, lists, dictionaries of literals)
  and rejects every other text. \<open>parse_literal\<close> follows these words, to be compared with
  \<open>py_eval\<close>.
\<close>

fun parse_literal :: "pyexpr \<Rightarrow> pyval option"
  and parse_literals :: "pyexpr list \<Rightarrow> pyval list option"
  and parse_items :: "(string \<times> pyexpr) list \<Rightarrow> (string \<times> pyval) list
        \<Rightarrow> (string \<times> pyval) list option"
where
  "parse_literal ENone = Some PNone"
| "parse_literal (EBool b) = Some (PBool b)"
| "parse_literal (EInt n) = Some (PInt (int n))"
| "parse_literal (EFloat f) = Some (PFloat f)"
| "parse_literal (EStr s) = Some (PStr s)"
| "parse_literal (EName n) = None"
| "parse_literal (ENeg (EInt n)) = Some (PInt (- int n))"
| "parse_literal (ENeg (EFloat f)) = Some (PFloat (float_neg f))"
| "parse_literal (ENeg _) = None"
| "parse_literal (EIfExp a c b) = None"
| "parse_literal (ETuple es) = map_option PTuple (parse_literals es)"
| "parse_literal (EList es) = map_option PList (parse_literals es)"
| "parse_literal (EDict kes) = map_option PDict (parse_items kes [])"
| "parse_literal EOpaque = None"
| "parse_literals [] = Some []"
| "parse_literals (e # es) =
     (case parse_literal e of
        None \<Rightarrow> None
      | Some v \<Rightarrow> map_option ((#) v) (parse_literals es))"
| "parse_items [] acc = Some acc"
| "parse_items ((k, e) # kes) acc =
     (case parse_literal e of
        None \<Rightarrow> None
      | Some v \<Rightarrow> parse_items kes (dict_set acc k v))"

text \<open>
  The schema of the specification, on the dictionary that the producer writes: the marker
  has \<^verbatim>\<open>mod\<close>, \<^verbatim>\<open>op\<close> and \<^verbatim>\<open>args\<close>; every descriptor has a name and a recognised kind (its
  \<^verbatim>\<open>type\<close>), with a shape and a dtype for a tensor or an array, a sequence as value for a
  list or a tuple, and a value for a scalar.
\<close>

fun is_sequence :: "pyval \<Rightarrow> bool" where
  "is_sequence (PList vs) = True"
| "is_sequence (PTuple vs) = True"
| "is_sequence _ = False"

fun is_str :: "pyval \<Rightarrow> bool" where
  "is_str (PStr s) = True"
| "is_str _ = False"

fun field_ok :: "(pyval \<Rightarrow> bool) \<Rightarrow> error + pyval \<Rightarrow> bool" where
  "field_ok p (Inr v) = p v"
| "field_ok p (Inl e) = False"

definition kind_ok :: "(string \<times> pyval) list \<Rightarrow> pyval \<Rightarrow> bool" where
  "kind_ok a k =
     (if k = PStr ''tensor'' \<or> k = PStr ''ndarray'' then
        field_ok is_sequence (dict_get a ''shape'') \<and> field_ok is_str (dict_get a ''dtype'')
      else if k = PStr ''list'' \<or> k = PStr ''tuple'' then
        field_ok is_sequence (dict_get a ''value'')
      else if k = PStr ''int'' \<or> k = PStr ''float'' \<or> k = PStr ''bool''
              \<or> k = PStr ''NoneType'' \<or> k = PStr ''str'' then
        dict_has a ''value''
      else False)"

fun descriptor_ok :: "pyval \<Rightarrow> bool" where
  "descriptor_ok (PDict a) =
     (field_ok is_str (dict_get a ''name'') \<and> field_ok (kind_ok a) (dict_get a ''type''))"
| "descriptor_ok _ = False"

fun descriptors_ok :: "pyval \<Rightarrow> bool" where
  "descriptors_ok (PList as) = list_all descriptor_ok as"
| "descriptors_ok _ = False"

fun schema_ok :: "pyval \<Rightarrow> bool" where
  "schema_ok (PDict m) =
     (field_ok is_str (dict_get m ''mod'') \<and> field_ok is_str (dict_get m ''op'') \<and>
      field_ok descriptors_ok (dict_get m ''args''))"
| "schema_ok _ = False"

text \<open>
  A marker text that is no literal and has no kind for its argument:
  \<^verbatim>\<open>{'mod': 'torch', 'op': 'mean', 'args': [{'name': '', 'shape': (4, 8) if True else (),
  'dtype': 'float32'}]}\<close>
\<close>

definition code_text :: pyexpr where
  "code_text =
     EDict [(''mod'', EStr ''torch''), (''op'', EStr ''mean''),
            (''args'', EList [EDict [(''name'', EStr ''''),
               (''shape'', EIfExp (ETuple [EInt 4, EInt 8]) (EBool True) (ETuple [])),
               (''dtype'', EStr ''float32'')]])]"

section \<open>Values that survive the text\<close>

text \<open>
  \<open>evaluable v\<close>: the text \<^verbatim>\<open>str(v)\<close> holds no bare word and no object of another type, that
  is \<open>v\<close> holds no infinity, no not-a-number and no \<open>PObj\<close>. \<open>wf_keys v\<close>: no dictionary in
  \<open>v\<close> has a key twice.
\<close>

fun finite_float :: "pyfloat \<Rightarrow> bool" where
  "finite_float (Finite m e) = True"
| "finite_float _ = False"

fun evaluable :: "pyval \<Rightarrow> bool" where
  "evaluable (PFloat f) = finite_float f"
| "evaluable (PTuple vs) = list_all evaluable vs"
| "evaluable (PList vs) = list_all evaluable vs"
| "evaluable (PDict kvs) = list_all (\<lambda>kv. evaluable (snd kv)) kvs"
| "evaluable PObj = False"
| "evaluable _ = True"

fun wf_keys :: "pyval \<Rightarrow> bool" where
  "wf_keys (PTuple vs) = list_all wf_keys vs"
| "wf_keys (PList vs) = list_all wf_keys vs"
| "wf_keys (PDict kvs) = (distinct (map fst kvs) \<and> list_all (\<lambda>kv. wf_keys (snd kv)) kvs)"
| "wf_keys _ = True"

text \<open>
  The same on the arguments of a call. \<open>plain x\<close>: \<open>x\<close> is a scalar other than infinity and
  not-a-number, or a sequence of such. \<open>seqs_plain\<close> follows \<open>foo\<close>: every sequence that
  \<open>foo\<close> hands to \<open>seq\<close> is plain.
\<close>

fun plain :: "pyarg \<Rightarrow> bool" where
  "plain (Scalar (SFloat f)) = finite_float f"
| "plain (Scalar s) = True"
| "plain (Seq kind xs) = list_all plain xs"
| "plain _ = False"

fun seqs_plain :: "pyarg list \<Rightarrow> bool"
  and seq_plain :: "pyarg \<Rightarrow> bool"
where
  "seqs_plain [] = True"
| "seqs_plain (arg # rest) = (seq_plain arg \<and> seqs_plain rest)"
| "seq_plain (Seq kind xs) =
     (case xs of
        [] \<Rightarrow> True
      | x # _ \<Rightarrow> if isscalar x then list_all plain xs else seqs_plain xs)"
| "seq_plain _ = True"

fun kwargs_plain :: "(string \<times> pyarg) list \<Rightarrow> bool" where
  "kwargs_plain [] = True"
| "kwargs_plain ((k, v) # kwargs) = (seq_plain v \<and> kwargs_plain kwargs)"

section \<open>Properties\<close>

subsection \<open>Reading a successful construction\<close>

lemma ebind_Inr_iff: "ebind x f = Inr y \<longleftrightarrow> (\<exists>a. x = Inr a \<and> f a = Inr y)"
  by (cases x) auto

lemma first_Inr_iff: "first xs = Inr x \<longleftrightarrow> (\<exists>rest. xs = x # rest)"
  by (cases xs) auto

lemmas producer_defs =
  argMarker_def cadena_of_def tensor_def ndarray_def seq_def scalar_def dims_def dtype_name_def

lemma Mean_init_sub: "Mean_init d = Inr c \<Longrightarrow> sub c = row_sub d"
  by (auto simp: Mean_init_def ebind_Inr_iff split: if_splits)

lemma Sum_init_sub: "Sum_init d = Inr c \<Longrightarrow> sub c = row_sub d"
  by (auto simp: Sum_init_def ebind_Inr_iff split: if_splits)

lemma Norm_init_sub: "Norm_init d = Inr c \<Longrightarrow> sub c = row_sub d"
  by (auto simp: Norm_init_def ebind_Inr_iff split: if_splits)

subsection \<open>Constructing from a call on one tensor\<close>

lemma Mean_init_4x8:
  "Mean_init (tensor_row ''mean'' [4, 8] ''torch.float32'' s) =
     Inr (layer.extend (tensor_layer ''mean'' [4, 8] ''float32'' s) (Mean.fields ''fprop''))"
  by (simp add: tensor_row_def tensor_layer_def Mean_init_def producer_defs py_assert_def
      layer.defs Mean.defs Let_def)

lemma Sum_init_4x8:
  "Sum_init (tensor_row ''sum'' [4, 8] ''torch.float32'' s) =
     Inr (tensor_layer ''sum'' [4, 8] ''float32'' s)"
  by (simp add: tensor_row_def tensor_layer_def Sum_init_def producer_defs py_assert_def Let_def)

lemma Sum_init_complex:
  "Sum_init (tensor_row ''sum'' [4, 8] ''torch.complex64'' s) =
     Inr (tensor_layer ''sum'' [4, 8] ''complex64'' s)"
  by (simp add: tensor_row_def tensor_layer_def Sum_init_def producer_defs py_assert_def Let_def)

lemma Norm_init_10:
  "Norm_init (tensor_row ''norm'' [10] ''torch.float16'' s) =
     Inr (tensor_layer ''norm'' [10] ''float16'' s)"
  by (simp add: tensor_row_def tensor_layer_def Norm_init_def producer_defs py_assert_def Let_def)

lemma Norm_init_complex:
  "Norm_init (tensor_row ''norm'' [10] ''torch.complex64'' s) =
     Inr (tensor_layer ''norm'' [10] ''complex64'' s)"
  by (simp add: tensor_row_def tensor_layer_def Norm_init_def producer_defs py_assert_def Let_def)

lemma tensor_layer_sel [simp]:
  "shape (tensor_layer opn sz dt s) = PTuple (map PInt sz)"
  "type (tensor_layer opn sz dt s) = PStr dt"
  "sub (tensor_layer opn sz dt s) = s"
  by (simp_all add: tensor_layer_def Let_def)

lemma tensor_row_sub [simp]: "row_sub (tensor_row opn sz dt s) = s"
  by (simp add: tensor_row_def)

subsection \<open>Lookups and filters\<close>




lemma py_getitem_Inr_contains:
  "py_getitem i k = Inr v \<Longrightarrow> py_contains k i = Inr True"
proof (cases i)
  case (PDict kvs)
  assume "py_getitem i k = Inr v"
  with PDict have "dict_get kvs k = Inr v" by simp
  then have "dict_has kvs k" by (induction kvs) (auto split: if_splits)
  with PDict show ?thesis by simp
qed simp_all

subsection \<open>Scalars and their descriptors\<close>

lemma scalar_eq: "scalar s name cargs = cargs @ [scalar_desc name s]"
  by (simp add: scalar_def stored_value_def scalar_desc_def)

lemma stored_value_roundtrip: "py_eval (py_str (stored_value s)) = Inr (stored_value s)"
proof (cases s)
  case (SFloat f)
  then show ?thesis by (cases f) (simp_all add: stored_value_def)
qed (simp_all add: stored_value_def)

lemma tensor0_is_scalar:
  "argMarker md opn (Tensor (TorchTensor [] dt it) # pargs) kwargs =
   argMarker md opn (Scalar it # pargs) kwargs"
  by (simp add: argMarker_def cadena_of_def)

lemma scalar_marker_eval:
  "py_eval (argMarker md opn [Scalar s] []) =
     Inr (PDict [(''mod'', PStr md), (''op'', PStr opn), (''args'', PList [scalar_desc '''' s])])"
  by (simp add: argMarker_def cadena_of_def scalar_eq scalar_desc_def stored_value_roundtrip)

lemma Mean_init_scalar:
  "Mean_init (call_row ''mean'' [Scalar s] [] lvl) =
     Inr \<lparr>marker = PDict [(''mod'', PStr ''torch''), (''op'', PStr ''mean''),
                          (''args'', PList [scalar_desc '''' s])],
          mod_ = PStr ''torch'', op_ = PStr ''mean'', args = PList [scalar_desc '''' s],
          shape = PTuple [PInt 1], type = PStr (type_name s), sub = lvl, dir = ''fprop''\<rparr>"
  by (simp add: Mean_init_def call_row_def scalar_marker_eval py_assert_def scalar_desc_def)

lemma Mean_init_args:
  "Mean_init d = Inr c \<Longrightarrow> py_iter (args c) = Inr xs \<Longrightarrow> filter_name '''' xs = Inr pos \<Longrightarrow>
     \<exists>i rest. pos = i # rest \<and>
       (py_contains ''shape'' i = Inr True \<and> py_getitem i ''shape'' = Inr (shape c)
          \<and> py_getitem i ''dtype'' = Inr (type c) \<or>
        py_contains ''shape'' i = Inr False \<and> py_contains ''value'' i = Inr True
          \<and> shape c = PTuple [PInt 1] \<and> py_getitem i ''type'' = Inr (type c))"
  by (auto simp: Mean_init_def ebind_Inr_iff first_Inr_iff py_assert_def split: if_splits)

subsection \<open>The structured parser and \<^verbatim>\<open>eval\<close>\<close>

lemma parse_eval:
  "parse_literal e = Some v \<Longrightarrow> py_eval e = Inr v"
  "parse_literals es = Some vs \<Longrightarrow> py_eval_list es = Inr vs"
  "parse_items kes acc = Some kvs \<Longrightarrow> py_eval_items kes acc = Inr kvs"
proof (induction e and es and kes acc arbitrary: v and vs and kvs
    rule: parse_literal_parse_literals_parse_items.induct)
qed (auto split: option.splits)

subsection \<open>Reading back what \<^verbatim>\<open>str\<close> wrote\<close>

text \<open>
  \<^verbatim>\<open>eval\<close> of \<^verbatim>\<open>str(v)\<close> gives \<open>v\<close> back when \<open>v\<close> is evaluable and raises \<^verbatim>\<open>NameError\<close>
  otherwise; the marker of a call is read back as the dictionary that was written exactly
  when every sequence described by \<open>seq\<close> is plain.
\<close>

lemma dict_set_new: "k \<notin> fst ` set acc \<Longrightarrow> dict_set acc k v = acc @ [(k, v)]"
  by (induction acc) auto

lemma float_roundtrip:
  "py_eval (float_repr f) = (if finite_float f then Inr (PFloat f) else Inl NameError)"
  by (cases f) auto

lemma eval_list_all:
  "(\<And>v. v \<in> set vs \<Longrightarrow> py_eval (py_str v) = (if evaluable v then Inr v else Inl NameError)) \<Longrightarrow>
   py_eval_list (map py_str vs) = (if list_all evaluable vs then Inr vs else Inl NameError)"
  by (induction vs) auto

lemma eval_items_all:
  "(\<And>kv. kv \<in> set kvs \<Longrightarrow>
      py_eval (py_str (snd kv)) = (if evaluable (snd kv) then Inr (snd kv) else Inl NameError)) \<Longrightarrow>
   distinct (map fst kvs) \<Longrightarrow> fst ` set acc \<inter> fst ` set kvs = {} \<Longrightarrow>
   py_eval_items (map (\<lambda>kv. (fst kv, py_str (snd kv))) kvs) acc =
     (if list_all (\<lambda>kv. evaluable (snd kv)) kvs then Inr (acc @ kvs) else Inl NameError)"
proof (induction kvs arbitrary: acc)
  case Nil
  then show ?case by simp
next
  case (Cons kv kvs)
  obtain k v where kv: "kv = (k, v)" by (cases kv)
  from Cons.prems(3) have new: "k \<notin> fst ` set acc" by (auto simp: kv)
  have disj: "fst ` set (acc @ [(k, v)]) \<inter> fst ` set kvs = {}"
    using Cons.prems(2,3) by (auto simp: kv)
  have ih: "py_eval_items (map (\<lambda>kv. (fst kv, py_str (snd kv))) kvs) (acc @ [(k, v)]) =
     (if list_all (\<lambda>kv. evaluable (snd kv)) kvs then Inr ((acc @ [(k, v)]) @ kvs)
      else Inl NameError)"
    using Cons.prems(1,2) by (intro Cons.IH disj) auto
  have hd: "py_eval (py_str v) = (if evaluable v then Inr v else Inl NameError)"
    using Cons.prems(1) [of kv] by (simp add: kv)
  show ?case by (simp add: kv hd dict_set_new [OF new] ih)
qed

lemma str_eval:
  "wf_keys v \<Longrightarrow> py_eval (py_str v) = (if evaluable v then Inr v else Inl NameError)"
proof (induction v)
  case (PInt n)
  then show ?case by simp
next
  case (PFloat f)
  then show ?case by (simp add: float_roundtrip)
next
  case (PTuple vs)
  then have "py_eval_list (map py_str vs) = (if list_all evaluable vs then Inr vs else Inl NameError)"
    by (intro eval_list_all) (auto simp: list_all_iff)
  then show ?case by simp
next
  case (PList vs)
  then have "py_eval_list (map py_str vs) = (if list_all evaluable vs then Inr vs else Inl NameError)"
    by (intro eval_list_all) (auto simp: list_all_iff)
  then show ?case by simp
next
  case (PDict kvs)
  have "py_eval_items (map (\<lambda>kv. (fst kv, py_str (snd kv))) kvs) [] =
     (if list_all (\<lambda>kv. evaluable (snd kv)) kvs then Inr ([] @ kvs) else Inl NameError)"
  proof (rule eval_items_all)
    fix kv assume kv: "kv \<in> set kvs"
    then have "snd kv \<in> Basic_BNFs.snds kv" "wf_keys (snd kv)"
      using PDict.prems by (auto simp: list_all_iff snds.simps)
    with kv PDict.IH [of kv "snd kv"]
    show "py_eval (py_str (snd kv)) = (if evaluable (snd kv) then Inr (snd kv) else Inl NameError)"
      by simp
  qed (use PDict.prems in auto)
  then show ?case by simp
qed simp_all


lemma wf_scalar_val: "wf_keys (scalar_val s)"
  by (cases s) simp_all

lemma wf_obj_val: "wf_keys (obj_val x)"
  by (induction x rule: obj_val.induct) (simp_all add: wf_scalar_val list_all_iff)

lemma wf_stored_value: "wf_keys (stored_value s)"
  by (cases s) (auto simp: stored_value_def)

lemma foo_wf:
  "list_all wf_keys cargs \<Longrightarrow> list_all wf_keys (foo pargs name cargs)"
  "list_all wf_keys cargs \<Longrightarrow> list_all wf_keys (foo_arg arg name cargs)"
proof (induction pargs name cargs and arg name cargs rule: foo_foo_arg.induct)
  case (3 t name cargs)
  then show ?case
    by (simp add: scalar_eq scalar_desc_def wf_stored_value tensor_def dims_def list_all_iff)
next
  case (4 a name cargs)
  then show ?case by (simp add: ndarray_def dims_def list_all_iff)
next
  case (5 s name cargs)
  then show ?case by (simp add: scalar_eq scalar_desc_def wf_stored_value)
next
  case (6 kind xs name cargs)
  have "list_all wf_keys (seq kind xs name cargs)"
    using 6(2) by (cases kind) (simp_all add: seq_def list_all_iff wf_obj_val)
  with 6 show ?case by (cases xs) auto
qed simp_all

lemma foo_kwargs_wf:
  "list_all wf_keys cargs \<Longrightarrow> list_all wf_keys (foo_kwargs kwargs cargs)"
  by (induction kwargs cargs rule: foo_kwargs.induct) (simp_all add: foo_wf)

lemma cadena_wf: "wf_keys (cadena_of md opn pargs kwargs)"
  using foo_kwargs_wf [of "foo pargs [] []" kwargs] foo_wf(1) [of "[]" pargs "[]"]
  by (simp add: cadena_of_def)

lemma marker_roundtrip:
  "py_eval (argMarker md opn pargs kwargs) =
     (if evaluable (cadena_of md opn pargs kwargs) then Inr (cadena_of md opn pargs kwargs)
      else Inl NameError)"
  unfolding argMarker_def by (rule str_eval [OF cadena_wf])


lemma evaluable_obj_val: "evaluable (obj_val x) = plain x"
proof (induction x rule: obj_val.induct)
  case (1 s)
  then show ?case by (cases s) simp_all
qed (simp_all add: list_all_iff)

lemma evaluable_stored_value: "evaluable (stored_value s)"
proof (cases s)
  case (SFloat f)
  then show ?thesis by (cases f) (simp_all add: stored_value_def)
qed (simp_all add: stored_value_def)

lemma foo_evaluable:
  "list_all evaluable (foo pargs name cargs) = (list_all evaluable cargs \<and> seqs_plain pargs)"
  "list_all evaluable (foo_arg arg name cargs) = (list_all evaluable cargs \<and> seq_plain arg)"
proof (induction pargs name cargs and arg name cargs rule: foo_foo_arg.induct)
  case (2 arg rest name cargs)
  then show ?case by auto
next
  case (3 t name cargs)
  then show ?case
    by (simp add: scalar_eq scalar_desc_def evaluable_stored_value tensor_def dims_def
        list_all_iff)
next
  case (4 a name cargs)
  then show ?case by (simp add: ndarray_def dims_def list_all_iff)
next
  case (5 s name cargs)
  then show ?case by (simp add: scalar_eq scalar_desc_def evaluable_stored_value)
next
  case (6 kind xs name cargs)
  have s: "list_all evaluable (seq kind xs name cargs) =
      (list_all evaluable cargs \<and> list_all plain xs)"
    by (cases kind) (auto simp: seq_def list_all_iff evaluable_obj_val)
  show ?case
  proof (cases xs)
    case Nil
    with s show ?thesis by simp
  next
    case (Cons x rest)
    with s 6 show ?thesis by (cases "isscalar x") simp_all
  qed
qed simp_all

lemma foo_kwargs_evaluable:
  "list_all evaluable (foo_kwargs kwargs cargs) = (list_all evaluable cargs \<and> kwargs_plain kwargs)"
  by (induction kwargs cargs rule: foo_kwargs.induct) (auto simp: foo_evaluable)

lemma cadena_evaluable:
  "evaluable (cadena_of md opn pargs kwargs) = (seqs_plain pargs \<and> kwargs_plain kwargs)"
  by (simp add: cadena_of_def foo_kwargs_evaluable foo_evaluable)

lemma marker_read_back:
  "py_eval (argMarker md opn pargs kwargs) =
     (if seqs_plain pargs \<and> kwargs_plain kwargs then Inr (cadena_of md opn pargs kwargs)
      else Inl NameError)"
  by (simp add: marker_roundtrip cadena_evaluable)

subsection \<open>The descriptors of a call\<close>

text \<open>
  \<open>foo\<close> only appends; every scalar among the arguments, positional or keyword, and
  every tensor without dimensions gets the descriptor of \<open>scalar\<close>; and a shape in a
  descriptor is always the size of a tensor or an array.
\<close>

lemma foo_mono:
  "set cargs \<subseteq> set (foo pargs name cargs)"
  "set cargs \<subseteq> set (foo_arg arg name cargs)"
proof (induction pargs name cargs and arg name cargs rule: foo_foo_arg.induct)
  case (6 kind xs name cargs)
  then show ?case by (cases xs) (auto simp: seq_def Let_def)
qed (auto simp: scalar_eq tensor_def ndarray_def Let_def)

lemma foo_kwargs_mono: "set cargs \<subseteq> set (foo_kwargs kwargs cargs)"
proof (induction kwargs cargs rule: foo_kwargs.induct)
  case (2 k v kwargs cargs)
  have "set cargs \<subseteq> set (foo [v] k cargs)" by (rule foo_mono)
  with 2 show ?case by auto
qed simp

lemma foo_describes_scalar:
  "Scalar s \<in> set pargs \<or> Tensor (TorchTensor [] dt s) \<in> set pargs \<Longrightarrow>
     scalar_desc name s \<in> set (foo pargs name cargs)"
proof (induction pargs arbitrary: cargs)
  case Nil
  then show ?case by simp
next
  case (Cons arg rest)
  show ?case
  proof (cases "arg = Scalar s \<or> arg = Tensor (TorchTensor [] dt s)")
    case True
    then have "scalar_desc name s \<in> set (foo_arg arg name cargs)"
      by (auto simp: scalar_eq)
    with foo_mono(1) [of "foo_arg arg name cargs" rest name] show ?thesis by auto
  next
    case False
    with Cons.prems have "Scalar s \<in> set rest \<or> Tensor (TorchTensor [] dt s) \<in> set rest"
      by auto
    then show ?thesis by (simp add: Cons.IH)
  qed
qed

lemma foo_kwargs_describes_scalar:
  "(k, Scalar s) \<in> set kwargs \<or> (k, Tensor (TorchTensor [] dt s)) \<in> set kwargs \<Longrightarrow>
     scalar_desc k s \<in> set (foo_kwargs kwargs cargs)"
proof (induction kwargs cargs rule: foo_kwargs.induct)
  case (1 cargs)
  then show ?case by simp
next
  case (2 k' v kwargs cargs)
  show ?case
  proof (cases "(k', v) = (k, Scalar s) \<or> (k', v) = (k, Tensor (TorchTensor [] dt s))")
    case True
    then have "scalar_desc k s \<in> set (foo [v] k' cargs)" by (auto simp: scalar_eq)
    with foo_kwargs_mono [of "foo [v] k' cargs" kwargs] show ?thesis by auto
  next
    case False
    with 2 show ?thesis by auto
  qed
qed

lemma foo_shapes:
  "(\<And>d sh. d \<in> set cargs \<Longrightarrow> py_getitem d ''shape'' = Inr sh \<Longrightarrow> \<exists>sz. sh = dims sz) \<Longrightarrow>
    d \<in> set (foo pargs name cargs) \<Longrightarrow> py_getitem d ''shape'' = Inr sh \<Longrightarrow> \<exists>sz. sh = dims sz"
  "(\<And>d sh. d \<in> set cargs \<Longrightarrow> py_getitem d ''shape'' = Inr sh \<Longrightarrow> \<exists>sz. sh = dims sz) \<Longrightarrow>
    d \<in> set (foo_arg arg name cargs) \<Longrightarrow> py_getitem d ''shape'' = Inr sh \<Longrightarrow> \<exists>sz. sh = dims sz"
proof (induction pargs name cargs and arg name cargs arbitrary: d sh and d sh
    rule: foo_foo_arg.induct)
  case (1 name cargs)
  then show ?case by simp
next
  case (2 arg rest name cargs)
  show ?case
  proof (rule 2(2) [of d sh])
    show "\<exists>sz. sh' = dims sz"
      if "d' \<in> set (foo_arg arg name cargs)" "py_getitem d' ''shape'' = Inr sh'" for d' sh'
      using that 2(1) [of d' sh'] 2(3) by blast
  qed (use 2 in auto)
next
  case (3 t name cargs)
  then show ?case
    by (auto simp: scalar_eq scalar_desc_def tensor_def Let_def split: if_splits)
next
  case (4 a name cargs)
  then show ?case by (auto simp: ndarray_def Let_def)
next
  case (5 s name cargs)
  then show ?case by (auto simp: scalar_eq scalar_desc_def)
next
  case (6 kind xs name cargs)
  have s: "\<exists>sz. sh = dims sz" if "d \<in> set (seq kind xs name cargs)"
    using that 6(2) [of d sh] 6(4) by (cases kind) (auto simp: seq_def Let_def)
  show ?case
  proof (cases xs)
    case Nil
    with s 6(3) show ?thesis by simp
  next
    case (Cons x rest)
    show ?thesis
    proof (cases "isscalar x")
      case True
      with s 6(3) Cons show ?thesis by simp
    next
      case False
      with Cons 6(3) have "d \<in> set (foo xs name cargs)" by simp
      from 6(1) [OF Cons False _ this 6(4)] 6(2) show ?thesis by blast
    qed
  qed
next
  case (7 name cargs)
  then show ?case by auto
qed

lemma foo_kwargs_shapes:
  "(\<And>d sh. d \<in> set cargs \<Longrightarrow> py_getitem d ''shape'' = Inr sh \<Longrightarrow> \<exists>sz. sh = dims sz) \<Longrightarrow>
    d \<in> set (foo_kwargs kwargs cargs) \<Longrightarrow> py_getitem d ''shape'' = Inr sh \<Longrightarrow> \<exists>sz. sh = dims sz"
proof (induction kwargs cargs arbitrary: d sh rule: foo_kwargs.induct)
  case (1 cargs)
  then show ?case by simp
next
  case (2 k v kwargs cargs)
  show ?case
  proof (rule 2(1) [of d sh])
    show "\<exists>sz. sh' = dims sz"
      if "d' \<in> set (foo [v] k cargs)" "py_getitem d' ''shape'' = Inr sh'" for d' sh'
      using foo_shapes(1) [of cargs d' "[v]" k sh'] that 2(2) by blast
  qed (use 2 in auto)
qed

subsection \<open>When a constructor succeeds\<close>

text \<open>
  Each constructor succeeds exactly when the value of the text passes the lookups and the
  assertions that the constructor makes, with the attributes read from that value.
\<close>

lemma py_assert_Inr_iff: "py_assert b = Inr u \<longleftrightarrow> b"
  by (simp add: py_assert_def)

lemma py_getitem0_len: "py_getitem0 as = Inr a0 \<Longrightarrow> \<exists>n. py_len as = Inr n \<and> 1 \<le> n"
  by (cases as rule: py_getitem0.cases) auto

lemma Norm_init_iff:
  "Norm_init d = Inr c \<longleftrightarrow>
     (\<exists>text rest m md as i sh ty.
        row_argMarker d = text # rest \<and> py_eval text = Inr m \<and>
        py_getitem m ''mod'' = Inr md \<and> (md = PStr ''torch'' \<or> md = PStr ''Tensor'') \<and>
        py_getitem m ''op'' = Inr (PStr ''norm'') \<and> py_getitem m ''args'' = Inr as \<and>
        py_getitem0 as = Inr i \<and> py_getitem i ''shape'' = Inr sh \<and>
        py_getitem i ''dtype'' = Inr ty \<and>
        c = \<lparr>marker = m, mod_ = md, op_ = PStr ''norm'', args = as, shape = sh, type = ty,
             sub = row_sub d\<rparr>)"
  unfolding Norm_init_def ebind_Inr_iff first_Inr_iff py_assert_Inr_iff
  by (rule iffI; (elim exE conjE)?; (simp; fail | blast | force))

lemma Sum_init_iff:
  "Sum_init d = Inr c \<longleftrightarrow>
     (\<exists>text rest m md as a0 nm i sh ty.
        row_argMarker d = text # rest \<and> py_eval text = Inr m \<and>
        py_getitem m ''mod'' = Inr md \<and> (md = PStr ''torch'' \<or> md = PStr ''Tensor'') \<and>
        py_getitem m ''op'' = Inr (PStr ''sum'') \<and> py_getitem m ''args'' = Inr as \<and>
        py_getitem0 as = Inr a0 \<and> py_getitem a0 ''name'' = Inr nm \<and>
        (nm = PStr '''' \<and> i = a0 \<or>
         nm \<noteq> PStr '''' \<and>
           (\<exists>xs ys. py_iter as = Inr xs \<and> filter_name ''input'' xs = Inr (i # ys))) \<and>
        py_getitem i ''shape'' = Inr sh \<and> py_getitem i ''dtype'' = Inr ty \<and>
        c = \<lparr>marker = m, mod_ = md, op_ = PStr ''sum'', args = as, shape = sh, type = ty,
             sub = row_sub d\<rparr>)"
  (is "?l \<longleftrightarrow> ?r")
proof
  assume ?l
  then show ?r
    unfolding Sum_init_def ebind_Inr_iff first_Inr_iff py_assert_Inr_iff
    by (auto split: if_splits simp: ebind_Inr_iff first_Inr_iff)
next
  assume ?r
  then obtain tx rest m md ags a0 nm i sh ty where h:
    "row_argMarker d = tx # rest" "py_eval tx = Inr m"
    "py_getitem m ''mod'' = Inr md" "md = PStr ''torch'' \<or> md = PStr ''Tensor''"
    "py_getitem m ''op'' = Inr (PStr ''sum'')" "py_getitem m ''args'' = Inr ags"
    "py_getitem0 ags = Inr a0" "py_getitem a0 ''name'' = Inr nm"
    "nm = PStr '''' \<and> i = a0 \<or>
         nm \<noteq> PStr '''' \<and>
           (\<exists>xs ys. py_iter ags = Inr xs \<and> filter_name ''input'' xs = Inr (i # ys))"
    "py_getitem i ''shape'' = Inr sh" "py_getitem i ''dtype'' = Inr ty"
    "c = \<lparr>marker = m, mod_ = md, op_ = PStr ''sum'', args = ags, shape = sh, type = ty,
             sub = row_sub d\<rparr>"
    by blast
  from py_getitem0_len [OF h(7)] obtain n where n: "py_len ags = Inr n" "1 \<le> n" by blast
  from h(9) have sel: "(if nm = PStr '''' then Inr a0
            else ebind (py_iter ags) (\<lambda>xs. ebind (filter_name ''input'' xs) first)) = Inr i"
    by auto
  show ?l
    using h(4) n(2) by (simp add: Sum_init_def h(1,2,3,5,6,7,8,10,11,12) n(1) sel py_assert_def)
qed

lemma Mean_init_iff:
  "Mean_init d = Inr c \<longleftrightarrow>
     (\<exists>text rest m md as xs i pos ty.
        row_argMarker d = text # rest \<and> py_eval text = Inr m \<and>
        py_getitem m ''mod'' = Inr md \<and> (md = PStr ''torch'' \<or> md = PStr ''Tensor'') \<and>
        py_getitem m ''op'' = Inr (PStr ''mean'') \<and> py_getitem m ''args'' = Inr as \<and>
        py_iter as = Inr xs \<and> filter_name '''' xs = Inr (i # pos) \<and> length pos \<le> 1 \<and>
        ((\<exists>sh. py_contains ''shape'' i = Inr True \<and> py_getitem i ''shape'' = Inr sh \<and>
           py_getitem i ''dtype'' = Inr ty \<and>
           c = \<lparr>marker = m, mod_ = md, op_ = PStr ''mean'', args = as, shape = sh, type = ty,
                sub = row_sub d, dir = row_dir d\<rparr>) \<or>
         py_contains ''shape'' i = Inr False \<and> py_contains ''value'' i = Inr True \<and>
           py_getitem i ''type'' = Inr ty \<and>
           c = \<lparr>marker = m, mod_ = md, op_ = PStr ''mean'', args = as, shape = PTuple [PInt 1],
                type = ty, sub = row_sub d, dir = row_dir d\<rparr>))"
  (is "?l \<longleftrightarrow> ?r")
proof
  assume ?l
  then show ?r
    unfolding Mean_init_def ebind_Inr_iff first_Inr_iff py_assert_Inr_iff
    by (auto split: if_splits simp: ebind_Inr_iff first_Inr_iff py_assert_Inr_iff)
next
  assume ?r
  then show ?l
    by (auto simp: Mean_init_def py_assert_def)
qed

subsection \<open>Metrics of \<^verbatim>\<open>Mean\<close>\<close>

text \<open>
  Claim C3. For every row from which \<open>Mean\<close> is constructed: at \<^verbatim>\<open>sub == 0\<close>,
  \<^verbatim>\<open>flops()\<close> is \<^verbatim>\<open>elems() + 1\<close> and \<^verbatim>\<open>bytes()\<close> is \<^verbatim>\<open>elems()\<close> times the byte width of the
  dtype; at any other level both are 0. For a \<^verbatim>\<open>float32\<close> tensor of size (4, 8) at level 0,
  \<^verbatim>\<open>elems()\<close> is 32, \<^verbatim>\<open>bytes()\<close> is 128 and \<^verbatim>\<open>flops()\<close> is 33.
\<close>

theorem Mean_metrics:
  "Mean_init d = Inr c \<Longrightarrow>
     (row_sub d = 0 \<longrightarrow> Mean_elems c = Inr n \<longrightarrow> Mean_flops c = Inr (n + 1)) \<and>
     (row_sub d = 0 \<longrightarrow> Mean_elems c = Inr n \<longrightarrow> typeToBytes (type c) = Inr w \<longrightarrow>
        Mean_bytes c = Inr (n * w)) \<and>
     (row_sub d \<noteq> 0 \<longrightarrow> Mean_flops c = Inr 0 \<and> Mean_bytes c = Inr 0) \<and>
     map_sum id Mean_elems (Mean_init (tensor_row ''mean'' [4, 8] ''torch.float32'' 0)) =
       Inr (Inr 32) \<and>
     map_sum id Mean_bytes (Mean_init (tensor_row ''mean'' [4, 8] ''torch.float32'' 0)) =
       Inr (Inr 128) \<and>
     map_sum id Mean_flops (Mean_init (tensor_row ''mean'' [4, 8] ''torch.float32'' 0)) =
       Inr (Inr 33)"
proof (intro conjI impI)
  assume c: "Mean_init d = Inr c"
  show "Mean_flops c = Inr (n + 1)" if "row_sub d = 0" "Mean_elems c = Inr n"
    using that Mean_init_sub [OF c] by (simp add: Mean_flops_def)
  show "Mean_bytes c = Inr (n * w)"
    if "row_sub d = 0" "Mean_elems c = Inr n" "typeToBytes (type c) = Inr w"
    using that Mean_init_sub [OF c] by (simp add: Mean_bytes_def)
  show "Mean_flops c = Inr 0" if "row_sub d \<noteq> 0"
    using that Mean_init_sub [OF c] by (simp add: Mean_flops_def)
  show "Mean_bytes c = Inr 0" if "row_sub d \<noteq> 0"
    using that Mean_init_sub [OF c] by (simp add: Mean_bytes_def)
next
  show "map_sum id Mean_elems (Mean_init (tensor_row ''mean'' [4, 8] ''torch.float32'' 0)) =
       Inr (Inr 32)"
    by (simp add: Mean_init_4x8 Mean_elems_def layer.defs Mean.defs tensor_layer_def Let_def)
  show "map_sum id Mean_bytes (Mean_init (tensor_row ''mean'' [4, 8] ''torch.float32'' 0)) =
       Inr (Inr 128)"
    by (simp add: Mean_init_4x8 Mean_bytes_def Mean_elems_def layer.defs Mean.defs
        tensor_layer_def Let_def)
  show "map_sum id Mean_flops (Mean_init (tensor_row ''mean'' [4, 8] ''torch.float32'' 0)) =
       Inr (Inr 33)"
    by (simp add: Mean_init_4x8 Mean_flops_def Mean_elems_def layer.defs Mean.defs
        tensor_layer_def Let_def)
qed

text \<open>The theorem at the rows of \<^verbatim>\<open>torch.mean(x)\<close> at level 0 and at level 1.\<close>

theorem Mean_metrics_witness:
  "(\<exists>c. Mean_init (tensor_row ''mean'' [4, 8] ''torch.float32'' 0) = Inr c \<and>
        Mean_elems c = Inr 32 \<and> typeToBytes (type c) = Inr 4 \<and>
        Mean_flops c = Inr 33 \<and> Mean_bytes c = Inr 128) \<and>
   (\<exists>c. Mean_init (tensor_row ''mean'' [4, 8] ''torch.float32'' 1) = Inr c \<and>
        Mean_flops c = Inr 0 \<and> Mean_bytes c = Inr 0)"
proof -
  let ?c0 = "layer.extend (tensor_layer ''mean'' [4, 8] ''float32'' 0) (Mean.fields ''fprop'')"
  let ?c1 = "layer.extend (tensor_layer ''mean'' [4, 8] ''float32'' 1) (Mean.fields ''fprop'')"
  have e: "Mean_elems ?c0 = Inr 32"
    by (simp add: Mean_elems_def layer.defs Mean.defs tensor_layer_def Let_def)
  have w: "typeToBytes (type ?c0) = Inr 4"
    by (simp add: layer.defs Mean.defs tensor_layer_def Let_def)
  from Mean_metrics [OF Mean_init_4x8 [of 0], of 32 4] e w
  have "Mean_flops ?c0 = Inr 33 \<and> Mean_bytes ?c0 = Inr 128" by simp
  moreover from Mean_metrics [OF Mean_init_4x8 [of 1], of 0 0]
  have "Mean_flops ?c1 = Inr 0 \<and> Mean_bytes ?c1 = Inr 0" by simp
  ultimately show ?thesis using e w by (simp add: Mean_init_4x8)
qed

subsection \<open>Metrics of \<^verbatim>\<open>Sum\<close>\<close>

text \<open>
  Claim C1, as amended. For every row from which \<open>Sum\<close> is constructed, \<^verbatim>\<open>flops()\<close> is
  \<^verbatim>\<open>elems()\<close>, the product of the operand's shape, at every level, and \<^verbatim>\<open>bytes()\<close> is 0
  at a level other than 0 when the shape has an element count and the dtype is in the
  table of byte widths. For a \<^verbatim>\<open>float32\<close> tensor of size (4, 8) at level 1, \<^verbatim>\<open>bytes()\<close> is
  0 and \<^verbatim>\<open>flops()\<close> is 32.
\<close>

theorem Sum_metrics:
  "Sum_init d = Inr c \<Longrightarrow>
     Sum_flops c = Sum_elems c \<and> Sum_elems c = numElems (shape c) \<and>
     (row_sub d \<noteq> 0 \<longrightarrow> Sum_elems c = Inr n \<longrightarrow> typeToBytes (type c) = Inr w \<longrightarrow>
        Sum_bytes c = Inr 0) \<and>
     map_sum id Sum_bytes (Sum_init (tensor_row ''sum'' [4, 8] ''torch.float32'' 1)) =
       Inr (Inr 0) \<and>
     map_sum id Sum_flops (Sum_init (tensor_row ''sum'' [4, 8] ''torch.float32'' 1)) =
       Inr (Inr 32)"
proof (intro conjI impI)
  assume c: "Sum_init d = Inr c"
  show "Sum_flops c = Sum_elems c" by (simp add: Sum_flops_def)
  show "Sum_elems c = numElems (shape c)" by (simp add: Sum_elems_def)
  show "Sum_bytes c = Inr 0"
    if "row_sub d \<noteq> 0" "Sum_elems c = Inr n" "typeToBytes (type c) = Inr w"
    using that Sum_init_sub [OF c] by (simp add: Sum_bytes_def)
next
  show "map_sum id Sum_bytes (Sum_init (tensor_row ''sum'' [4, 8] ''torch.float32'' 1)) =
      Inr (Inr 0)"
    by (simp add: Sum_init_4x8 Sum_bytes_def Sum_elems_def)
  show "map_sum id Sum_flops (Sum_init (tensor_row ''sum'' [4, 8] ''torch.float32'' 1)) =
      Inr (Inr 32)"
    by (simp add: Sum_init_4x8 Sum_flops_def Sum_elems_def)
qed

text \<open>The theorem at the row of \<^verbatim>\<open>torch.sum(x)\<close> at level 1, for a \<^verbatim>\<open>float32\<close> tensor.\<close>

theorem Sum_metrics_witness:
  "\<exists>c. Sum_init (tensor_row ''sum'' [4, 8] ''torch.float32'' 1) = Inr c \<and>
       Sum_elems c = Inr 32 \<and> typeToBytes (type c) = Inr 4 \<and>
       Sum_flops c = Inr 32 \<and> Sum_bytes c = Inr 0"
proof -
  let ?c = "tensor_layer ''sum'' [4, 8] ''float32'' 1"
  have e: "Sum_elems ?c = Inr 32" by (simp add: Sum_elems_def)
  have w: "typeToBytes (type ?c) = Inr 4" by simp
  from Sum_metrics [OF Sum_init_4x8 [of 1], of 32 4] e w
  have "Sum_flops ?c = Inr 32 \<and> Sum_bytes ?c = Inr 0" by simp
  then show ?thesis using e w by (simp add: Sum_init_4x8)
qed

text \<open>
  Claim C1 as first stated, that \<^verbatim>\<open>bytes()\<close> of \<open>Sum\<close> is 0 whenever the level is not 0,
  fails for a \<^verbatim>\<open>complex64\<close> tensor at level 1: the constructor succeeds, and \<^verbatim>\<open>bytes()\<close>
  looks the dtype up before it tests the level and raises.
\<close>

theorem Sum_bytes_not_suppressed:
  "row_sub (tensor_row ''sum'' [4, 8] ''torch.complex64'' 1) \<noteq> 0 \<and>
   map_sum id Sum_bytes (Sum_init (tensor_row ''sum'' [4, 8] ''torch.complex64'' 1)) =
     Inr (Inl UnknownDtypeError)"
  by (simp add: Sum_init_complex Sum_bytes_def Sum_elems_def)

subsection \<open>Metrics of \<^verbatim>\<open>Norm\<close>\<close>

text \<open>
  Claim C4, as amended. For every row from which \<open>Norm\<close> is constructed: at \<^verbatim>\<open>sub == 0\<close>,
  \<^verbatim>\<open>flops()\<close> is \<^verbatim>\<open>2 * elems() + 1\<close> and \<^verbatim>\<open>bytes()\<close> is \<^verbatim>\<open>elems()\<close> times the byte width
  of the dtype; at a level other than 0, \<^verbatim>\<open>flops()\<close> is 0 when the shape has an element
  count, and \<^verbatim>\<open>bytes()\<close> is 0 when moreover the dtype is in the table of byte widths. For a
  \<^verbatim>\<open>float16\<close> tensor of size (10,) at level 0, \<^verbatim>\<open>elems()\<close> is 10, \<^verbatim>\<open>bytes()\<close> is 20 and
  \<^verbatim>\<open>flops()\<close> is 21.
\<close>

theorem Norm_metrics:
  "Norm_init d = Inr c \<Longrightarrow>
     (row_sub d = 0 \<longrightarrow> Norm_elems c = Inr n \<longrightarrow> Norm_flops c = Inr (2 * n + 1)) \<and>
     (row_sub d = 0 \<longrightarrow> Norm_elems c = Inr n \<longrightarrow> typeToBytes (type c) = Inr w \<longrightarrow>
        Norm_bytes c = Inr (n * w)) \<and>
     (row_sub d \<noteq> 0 \<longrightarrow> Norm_elems c = Inr n \<longrightarrow> Norm_flops c = Inr 0) \<and>
     (row_sub d \<noteq> 0 \<longrightarrow> Norm_elems c = Inr n \<longrightarrow> typeToBytes (type c) = Inr w \<longrightarrow>
        Norm_bytes c = Inr 0) \<and>
     map_sum id Norm_elems (Norm_init (tensor_row ''norm'' [10] ''torch.float16'' 0)) =
       Inr (Inr 10) \<and>
     map_sum id Norm_bytes (Norm_init (tensor_row ''norm'' [10] ''torch.float16'' 0)) =
       Inr (Inr 20) \<and>
     map_sum id Norm_flops (Norm_init (tensor_row ''norm'' [10] ''torch.float16'' 0)) =
       Inr (Inr 21)"
proof (intro conjI impI)
  assume c: "Norm_init d = Inr c"
  show "Norm_flops c = Inr (2 * n + 1)" if "row_sub d = 0" "Norm_elems c = Inr n"
    using that Norm_init_sub [OF c] by (simp add: Norm_flops_def)
  show "Norm_bytes c = Inr (n * w)"
    if "row_sub d = 0" "Norm_elems c = Inr n" "typeToBytes (type c) = Inr w"
    using that Norm_init_sub [OF c] by (simp add: Norm_bytes_def)
  show "Norm_flops c = Inr 0" if "row_sub d \<noteq> 0" "Norm_elems c = Inr n"
    using that Norm_init_sub [OF c] by (simp add: Norm_flops_def)
  show "Norm_bytes c = Inr 0"
    if "row_sub d \<noteq> 0" "Norm_elems c = Inr n" "typeToBytes (type c) = Inr w"
    using that Norm_init_sub [OF c] by (simp add: Norm_bytes_def)
next
  show "map_sum id Norm_elems (Norm_init (tensor_row ''norm'' [10] ''torch.float16'' 0)) =
      Inr (Inr 10)"
    by (simp add: Norm_init_10 Norm_elems_def)
  show "map_sum id Norm_bytes (Norm_init (tensor_row ''norm'' [10] ''torch.float16'' 0)) =
      Inr (Inr 20)"
    by (simp add: Norm_init_10 Norm_bytes_def Norm_elems_def)
  show "map_sum id Norm_flops (Norm_init (tensor_row ''norm'' [10] ''torch.float16'' 0)) =
      Inr (Inr 21)"
    by (simp add: Norm_init_10 Norm_flops_def Norm_elems_def)
qed

text \<open>
  The theorem at the rows of \<^verbatim>\<open>torch.norm(x)\<close> for a \<^verbatim>\<open>float16\<close> tensor at levels 0 and 1.
\<close>

theorem Norm_metrics_witness:
  "(\<exists>c. Norm_init (tensor_row ''norm'' [10] ''torch.float16'' 0) = Inr c \<and>
        Norm_elems c = Inr 10 \<and> typeToBytes (type c) = Inr 2 \<and>
        Norm_flops c = Inr 21 \<and> Norm_bytes c = Inr 20) \<and>
   (\<exists>c. Norm_init (tensor_row ''norm'' [10] ''torch.float16'' 1) = Inr c \<and>
        Norm_elems c = Inr 10 \<and> typeToBytes (type c) = Inr 2 \<and>
        Norm_flops c = Inr 0 \<and> Norm_bytes c = Inr 0)"
proof -
  let ?c = "\<lambda>s. tensor_layer ''norm'' [10] ''float16'' s"
  have e: "Norm_elems (?c s) = Inr 10" for s by (simp add: Norm_elems_def)
  have w: "typeToBytes (type (?c s)) = Inr 2" for s by simp
  from Norm_metrics [OF Norm_init_10 [of 0], of 10 2] e w
  have "Norm_flops (?c 0) = Inr 21 \<and> Norm_bytes (?c 0) = Inr 20" by simp
  moreover from Norm_metrics [OF Norm_init_10 [of 1], of 10 2] e w
  have "Norm_flops (?c 1) = Inr 0 \<and> Norm_bytes (?c 1) = Inr 0" by simp
  ultimately show ?thesis using e w by (simp add: Norm_init_10)
qed

text \<open>
  Claim C4 as first stated, that \<^verbatim>\<open>bytes()\<close> and \<^verbatim>\<open>flops()\<close> of \<open>Norm\<close> are both 0
  whenever the level is not 0, fails for a \<^verbatim>\<open>complex64\<close> tensor at level 1: the
  constructor succeeds, and \<^verbatim>\<open>bytes()\<close> looks the dtype up before it tests the level and
  raises.
\<close>

theorem Norm_bytes_not_suppressed:
  "row_sub (tensor_row ''norm'' [10] ''torch.complex64'' 1) \<noteq> 0 \<and>
   map_sum id Norm_bytes (Norm_init (tensor_row ''norm'' [10] ''torch.complex64'' 1)) =
     Inr (Inl UnknownDtypeError)"
  by (simp add: Norm_init_complex Norm_bytes_def Norm_elems_def)

subsection \<open>Module and operator are checked\<close>

text \<open>
  Claim C5. For every record (a marker with \<^verbatim>\<open>mod\<close>, \<^verbatim>\<open>op\<close> and \<^verbatim>\<open>args\<close>), a constructor
  raises \<^verbatim>\<open>AssertionError\<close> when the module is neither \<^verbatim>\<open>torch\<close> nor \<^verbatim>\<open>Tensor\<close> or when the
  operator is not the constructor's own; it produces no calculator.
\<close>

theorem contract_violation:
  "row_argMarker d = text # rest \<Longrightarrow> py_eval text = Inr m \<Longrightarrow>
   py_getitem m ''mod'' = Inr md \<Longrightarrow> py_getitem m ''op'' = Inr opn \<Longrightarrow>
   py_getitem m ''args'' = Inr as \<Longrightarrow>
     ((md \<noteq> PStr ''torch'' \<and> md \<noteq> PStr ''Tensor'') \<or> opn \<noteq> PStr ''mean''
        \<longrightarrow> Mean_init d = Inl AssertionError) \<and>
     ((md \<noteq> PStr ''torch'' \<and> md \<noteq> PStr ''Tensor'') \<or> opn \<noteq> PStr ''sum''
        \<longrightarrow> Sum_init d = Inl AssertionError) \<and>
     ((md \<noteq> PStr ''torch'' \<and> md \<noteq> PStr ''Tensor'') \<or> opn \<noteq> PStr ''norm''
        \<longrightarrow> Norm_init d = Inl AssertionError)"
  by (auto simp: Mean_init_def Sum_init_def Norm_init_def py_assert_def)

text \<open>The theorem at the row of \<^verbatim>\<open>torch.sum(x)\<close>, handed to \<open>Mean\<close> and to \<open>Norm\<close>.\<close>

theorem contract_violation_witness:
  "Mean_init (tensor_row ''sum'' [4, 8] ''torch.float32'' 0) = Inl AssertionError \<and>
   Norm_init (tensor_row ''sum'' [4, 8] ''torch.float32'' 0) = Inl AssertionError"
proof -
  let ?l = "tensor_layer ''sum'' [4, 8] ''float32'' 0"
  have 1: "row_argMarker (tensor_row ''sum'' [4, 8] ''torch.float32'' 0) =
      argMarker ''torch'' ''sum''
        [Tensor (TorchTensor [4, 8] ''torch.float32'' (SFloat (Finite 0 0)))] [] # []"
    by (simp add: tensor_row_def)
  have 2: "py_eval (argMarker ''torch'' ''sum''
        [Tensor (TorchTensor [4, 8] ''torch.float32'' (SFloat (Finite 0 0)))] []) =
      Inr (marker ?l)"
    by (simp add: producer_defs tensor_layer_def Let_def)
  have 3: "py_getitem (marker ?l) ''mod'' = Inr (PStr ''torch'')"
    by (simp add: tensor_layer_def Let_def)
  have 4: "py_getitem (marker ?l) ''op'' = Inr (PStr ''sum'')"
    by (simp add: tensor_layer_def Let_def)
  have 5: "py_getitem (marker ?l) ''args'' = Inr (args ?l)"
    by (simp add: tensor_layer_def Let_def)
  from contract_violation [OF 1 2 3 4 5] show ?thesis by simp
qed

subsection \<open>The operand of \<^verbatim>\<open>Sum\<close>\<close>



subsection \<open>A scalar operand of \<^verbatim>\<open>Mean\<close>\<close>

text \<open>
  Claim C8. For every row from which \<open>Mean\<close> is constructed and whose first positional
  descriptor has no shape, the calculator has the shape (1,) and \<^verbatim>\<open>elems()\<close> is 1, the
  element count of the empty shape, and its type is the descriptor's \<^verbatim>\<open>type\<close>. The producer
  describes a tensor without dimensions as the scalar \<^verbatim>\<open>item()\<close>, so that \<open>Mean\<close> on such a
  tensor has one element.
\<close>

theorem Mean_scalar_operand:
  "Mean_init d = Inr c \<Longrightarrow> py_iter (args c) = Inr xs \<Longrightarrow>
   filter_name '''' xs = Inr (i # pos) \<Longrightarrow> py_contains ''shape'' i = Inr False \<Longrightarrow>
     shape c = PTuple [PInt 1] \<and> Mean_elems c = Inr 1 \<and>
     py_getitem i ''type'' = Inr (type c) \<and>
     numElems (dims []) = Inr 1 \<and>
     argMarker ''torch'' ''mean'' [Tensor (TorchTensor [] dt it)] [] =
       argMarker ''torch'' ''mean'' [Scalar it] [] \<and>
     map_sum id Mean_elems
       (Mean_init (call_row ''mean'' [Tensor (TorchTensor [] dt it)] [] lvl)) = Inr (Inr 1)"
proof (intro conjI)
  assume c: "Mean_init d = Inr c" and xs: "py_iter (args c) = Inr xs"
    and i: "filter_name '''' xs = Inr (i # pos)" and ns: "py_contains ''shape'' i = Inr False"
  from Mean_init_args [OF c xs i] ns
  show sh: "shape c = PTuple [PInt 1]" and "py_getitem i ''type'' = Inr (type c)" by auto
  then show "Mean_elems c = Inr 1" by (simp add: Mean_elems_def)
next
  show "numElems (dims []) = Inr 1" by (simp add: dims_def)
  show "argMarker ''torch'' ''mean'' [Tensor (TorchTensor [] dt it)] [] =
       argMarker ''torch'' ''mean'' [Scalar it] []"
    by (rule tensor0_is_scalar)
  have "call_row ''mean'' [Tensor (TorchTensor [] dt it)] [] lvl =
      call_row ''mean'' [Scalar it] [] lvl"
    by (simp add: call_row_def tensor0_is_scalar)
  then show "map_sum id Mean_elems
       (Mean_init (call_row ''mean'' [Tensor (TorchTensor [] dt it)] [] lvl)) = Inr (Inr 1)"
    by (simp add: Mean_init_scalar Mean_elems_def)
qed

text \<open>The theorem at the row of \<^verbatim>\<open>torch.mean(x)\<close> for a tensor \<open>x\<close> without dimensions.\<close>

theorem Mean_scalar_operand_witness:
  "\<exists>c i.
     Mean_init (call_row ''mean''
       [Tensor (TorchTensor [] ''torch.float32'' (SFloat (Finite 3 0)))] [] 0) = Inr c \<and>
     py_iter (args c) = Inr [i] \<and> filter_name '''' [i] = Inr [i] \<and>
     py_contains ''shape'' i = Inr False \<and>
     shape c = PTuple [PInt 1] \<and> Mean_elems c = Inr 1 \<and> type c = PStr ''float''"
proof -
  let ?d = "call_row ''mean''
       [Tensor (TorchTensor [] ''torch.float32'' (SFloat (Finite 3 0)))] [] 0"
  let ?i = "scalar_desc '''' (SFloat (Finite 3 0))"
  have d: "?d = call_row ''mean'' [Scalar (SFloat (Finite 3 0))] [] 0"
    by (simp add: call_row_def tensor0_is_scalar)
  obtain c where c: "Mean_init ?d = Inr c" and a: "args c = PList [?i]"
    and t: "type c = PStr ''float''"
    unfolding d Mean_init_scalar by simp
  have 1: "py_iter (args c) = Inr [?i]" by (simp add: a)
  have 2: "filter_name '''' [?i] = Inr (?i # [])" by (simp add: scalar_desc_def)
  have 3: "py_contains ''shape'' ?i = Inr False" by (simp add: scalar_desc_def)
  from Mean_scalar_operand [OF c 1 2 3] c 1 2 3 t show ?thesis by blast
qed

subsection \<open>Infinity and not-a-number\<close>

text \<open>
  Claim C9. For a scalar that is plus infinity, minus infinity or not-a-number \<open>scalar\<close>
  writes a descriptor of type \<^verbatim>\<open>float\<close> whose value is the string \<^verbatim>\<open>inf\<close>, \<^verbatim>\<open>-inf\<close> or
  \<^verbatim>\<open>nan\<close>, and the descriptor of a scalar has no shape. In the marker of every call, each
  scalar among the positional arguments and each scalar passed by keyword (also as a
  tensor without dimensions) has the descriptor that \<open>scalar\<close> writes for it, under its
  name; every shape in the marker is the size of a tensor or an array; and when no
  sequence argument stands in the way the marker is read back by \<^verbatim>\<open>eval\<close> as the
  dictionary that was written. \<open>Mean\<close> counts one element for a scalar operand, and \<open>Sum\<close>
  and \<open>Norm\<close> reject it: the value takes no part in a shape or an element count.
\<close>

theorem special_values:
  "scalar (SFloat PosInf) name cargs =
     cargs @ [PDict [(''name'', PStr name), (''type'', PStr ''float''),
                     (''value'', PStr ''inf'')]] \<and>
   scalar (SFloat NegInf) name cargs =
     cargs @ [PDict [(''name'', PStr name), (''type'', PStr ''float''),
                     (''value'', PStr ''-inf'')]] \<and>
   scalar (SFloat NaN) name cargs =
     cargs @ [PDict [(''name'', PStr name), (''type'', PStr ''float''),
                     (''value'', PStr ''nan'')]] \<and>
   map (py_contains ''shape'') (scalar s name []) = [Inr False] \<and>
   py_getitem (cadena_of md opn pargs kwargs) ''args'' =
     Inr (PList (foo_kwargs kwargs (foo pargs '''' []))) \<and>
   (Scalar s \<in> set pargs \<or> Tensor (TorchTensor [] dt s) \<in> set pargs \<longrightarrow>
      scalar s '''' [] = [a] \<longrightarrow> a \<in> set (foo_kwargs kwargs (foo pargs '''' []))) \<and>
   ((k, Scalar s) \<in> set kwargs \<or> (k, Tensor (TorchTensor [] dt s)) \<in> set kwargs \<longrightarrow>
      scalar s k [] = [a] \<longrightarrow> a \<in> set (foo_kwargs kwargs (foo pargs '''' []))) \<and>
   (d \<in> set (foo_kwargs kwargs (foo pargs '''' [])) \<longrightarrow> py_getitem d ''shape'' = Inr sh \<longrightarrow>
      (\<exists>sz. sh = dims sz)) \<and>
   (seqs_plain pargs \<and> kwargs_plain kwargs \<longrightarrow>
      py_eval (argMarker md opn pargs kwargs) = Inr (cadena_of md opn pargs kwargs)) \<and>
   py_eval (argMarker md opn [Scalar s] []) = Inr (cadena_of md opn [Scalar s] []) \<and>
   map_sum id Mean_elems (Mean_init (call_row ''mean'' [Scalar s] [] lvl)) = Inr (Inr 1) \<and>
   Sum_init (call_row ''sum'' [Scalar s] [] lvl) = Inl KeyError \<and>
   Norm_init (call_row ''norm'' [Scalar s] [] lvl) = Inl KeyError"
proof (intro conjI impI)
  show "scalar (SFloat PosInf) name cargs =
     cargs @ [PDict [(''name'', PStr name), (''type'', PStr ''float''),
                     (''value'', PStr ''inf'')]]"
    by (simp add: scalar_def)
  show "scalar (SFloat NegInf) name cargs =
     cargs @ [PDict [(''name'', PStr name), (''type'', PStr ''float''),
                     (''value'', PStr ''-inf'')]]"
    by (simp add: scalar_def)
  show "scalar (SFloat NaN) name cargs =
     cargs @ [PDict [(''name'', PStr name), (''type'', PStr ''float''),
                     (''value'', PStr ''nan'')]]"
    by (simp add: scalar_def)
  show "map (py_contains ''shape'') (scalar s name []) = [Inr False]"
    by (simp add: scalar_eq scalar_desc_def)
  show "py_getitem (cadena_of md opn pargs kwargs) ''args'' =
     Inr (PList (foo_kwargs kwargs (foo pargs '''' [])))"
    by (simp add: cadena_of_def)
  show "a \<in> set (foo_kwargs kwargs (foo pargs '''' []))"
    if "Scalar s \<in> set pargs \<or> Tensor (TorchTensor [] dt s) \<in> set pargs"
      "scalar s '''' [] = [a]"
  proof -
    from that(2) have "a = scalar_desc '''' s" by (simp add: scalar_eq)
    with foo_describes_scalar [OF that(1), of "''''" "[]"]
      foo_kwargs_mono [of "foo pargs '''' []" kwargs]
    show ?thesis by auto
  qed
  show "a \<in> set (foo_kwargs kwargs (foo pargs '''' []))"
    if "(k, Scalar s) \<in> set kwargs \<or> (k, Tensor (TorchTensor [] dt s)) \<in> set kwargs"
      "scalar s k [] = [a]"
  proof -
    from that(2) have "a = scalar_desc k s" by (simp add: scalar_eq)
    with foo_kwargs_describes_scalar [OF that(1)] show ?thesis by simp
  qed
  show "\<exists>sz. sh = dims sz"
    if "d \<in> set (foo_kwargs kwargs (foo pargs '''' []))" "py_getitem d ''shape'' = Inr sh"
  proof (rule foo_kwargs_shapes [OF _ that])
    show "\<exists>sz. sh' = dims sz"
      if "d' \<in> set (foo pargs '''' [])" "py_getitem d' ''shape'' = Inr sh'" for d' sh'
      using foo_shapes(1) [of "[]" d' pargs "''''" sh'] that by simp
  qed
  show "py_eval (argMarker md opn pargs kwargs) = Inr (cadena_of md opn pargs kwargs)"
    if "seqs_plain pargs \<and> kwargs_plain kwargs"
    using that by (simp add: marker_read_back)
  show "py_eval (argMarker md opn [Scalar s] []) = Inr (cadena_of md opn [Scalar s] [])"
    by (simp add: marker_read_back)
  show "map_sum id Mean_elems (Mean_init (call_row ''mean'' [Scalar s] [] lvl)) = Inr (Inr 1)"
    by (simp add: Mean_init_scalar Mean_elems_def)
  show "Sum_init (call_row ''sum'' [Scalar s] [] lvl) = Inl KeyError"
    by (simp add: Sum_init_def call_row_def scalar_marker_eval py_assert_def scalar_desc_def)
  show "Norm_init (call_row ''norm'' [Scalar s] [] lvl) = Inl KeyError"
    by (simp add: Norm_init_def call_row_def scalar_marker_eval py_assert_def scalar_desc_def)
qed

text \<open>
  The theorem at \<^verbatim>\<open>torch.norm(x, p=float('inf'))\<close>, whose marker holds the descriptor of
  \<^verbatim>\<open>p\<close> with the value \<^verbatim>\<open>inf\<close>, and at \<^verbatim>\<open>torch.mean(float('nan'))\<close>.
\<close>

theorem special_values_witness:
  "PDict [(''name'', PStr ''p''), (''type'', PStr ''float''), (''value'', PStr ''inf'')]
     \<in> set (foo_kwargs [(''p'', Scalar (SFloat PosInf))]
               (foo [Tensor (TorchTensor [10] ''torch.float16'' SNone)] '''' [])) \<and>
   py_eval (argMarker ''torch'' ''norm'' [Tensor (TorchTensor [10] ''torch.float16'' SNone)]
              [(''p'', Scalar (SFloat PosInf))]) =
     Inr (PDict [(''mod'', PStr ''torch''), (''op'', PStr ''norm''),
                 (''args'', PList [named_tensor '''' [10] ''float16'',
                    PDict [(''name'', PStr ''p''), (''type'', PStr ''float''),
                           (''value'', PStr ''inf'')]])]) \<and>
   PDict [(''name'', PStr ''''), (''type'', PStr ''float''), (''value'', PStr ''nan'')]
     \<in> set (foo_kwargs [] (foo [Scalar (SFloat NaN)] '''' [])) \<and>
   map_sum id Mean_elems (Mean_init (call_row ''mean'' [Scalar (SFloat NaN)] [] 0)) =
     Inr (Inr 1)"
proof (intro conjI)
  let ?x = "Tensor (TorchTensor [10] ''torch.float16'' SNone)"
  let ?kw = "[(''p'', Scalar (SFloat PosInf))]"
  let ?a = "PDict [(''name'', PStr ''p''), (''type'', PStr ''float''), (''value'', PStr ''inf'')]"
  note sv = special_values [of "''p''" "[]" "SFloat PosInf" "''torch''" "''norm''" "[?x]" ?kw
      "''torch.float16''" ?a "''p''"]
  have 1: "(''p'', Scalar (SFloat PosInf)) \<in> set ?kw \<or>
      (''p'', Tensor (TorchTensor [] ''torch.float16'' (SFloat PosInf))) \<in> set ?kw" by simp
  have 2: "scalar (SFloat PosInf) ''p'' [] = [?a]" by (simp add: scalar_def)
  from sv 1 2 show "?a \<in> set (foo_kwargs ?kw (foo [?x] '''' []))" by blast
  have 3: "seqs_plain [?x] \<and> kwargs_plain ?kw" by simp
  from sv 3 have "py_eval (argMarker ''torch'' ''norm'' [?x] ?kw) =
      Inr (cadena_of ''torch'' ''norm'' [?x] ?kw)" by blast
  then show "py_eval (argMarker ''torch'' ''norm'' [?x] ?kw) =
     Inr (PDict [(''mod'', PStr ''torch''), (''op'', PStr ''norm''),
                 (''args'', PList [named_tensor '''' [10] ''float16'', ?a])])"
    by (simp add: cadena_of_def tensor_def scalar_def dims_def dtype_name_def named_tensor_def)
next
  let ?b = "PDict [(''name'', PStr ''''), (''type'', PStr ''float''), (''value'', PStr ''nan'')]"
  note sv = special_values [of "''''" "[]" "SFloat NaN" "''torch''" "''mean''"
      "[Scalar (SFloat NaN)]" "[]" "''''" ?b "''''" _ _ 0]
  have 1: "Scalar (SFloat NaN) \<in> set [Scalar (SFloat NaN)] \<or>
      Tensor (TorchTensor [] '''' (SFloat NaN)) \<in> set [Scalar (SFloat NaN)]" by simp
  have 2: "scalar (SFloat NaN) '''' [] = [?b]" by (simp add: scalar_def)
  from sv 1 2 show "?b \<in> set (foo_kwargs [] (foo [Scalar (SFloat NaN)] '''' []))" by blast
  from sv show "map_sum id Mean_elems (Mean_init (call_row ''mean'' [Scalar (SFloat NaN)] [] 0)) =
     Inr (Inr 1)" by blast
qed

subsection \<open>The operand of \<^verbatim>\<open>Norm\<close>\<close>

text \<open>
  Claim C10, as amended. \<open>Norm\<close> takes the first descriptor of \<^verbatim>\<open>args\<close> whatever its name,
  with no fallback for a scalar, and reads its shape and its dtype: the construction fails
  whenever the first descriptor lacks a shape or a dtype, and it succeeds, with that shape
  and dtype, whenever module and operator match and the first descriptor has both, also
  when the descriptor is named.
\<close>

theorem Norm_operand:
  "row_argMarker d = text # rest \<Longrightarrow> py_eval text = Inr m \<Longrightarrow>
   py_getitem m ''mod'' = Inr md \<Longrightarrow> py_getitem m ''op'' = Inr opn \<Longrightarrow>
   py_getitem m ''args'' = Inr as \<Longrightarrow> py_getitem0 as = Inr i \<Longrightarrow>
     (Norm_init d = Inr c \<longrightarrow>
        py_getitem i ''shape'' = Inr (shape c) \<and> py_getitem i ''dtype'' = Inr (type c)) \<and>
     (py_contains ''shape'' i \<noteq> Inr True \<longrightarrow> (\<exists>e. Norm_init d = Inl e)) \<and>
     (py_contains ''dtype'' i \<noteq> Inr True \<longrightarrow> (\<exists>e. Norm_init d = Inl e)) \<and>
     ((md = PStr ''torch'' \<or> md = PStr ''Tensor'') \<longrightarrow> opn = PStr ''norm'' \<longrightarrow>
       py_getitem i ''shape'' = Inr sh \<longrightarrow> py_getitem i ''dtype'' = Inr ty \<longrightarrow>
       Norm_init d = Inr \<lparr>marker = m, mod_ = md, op_ = opn, args = as, shape = sh, type = ty,
                           sub = row_sub d\<rparr>)"
proof (intro conjI impI)
  assume h: "row_argMarker d = text # rest" "py_eval text = Inr m"
    "py_getitem m ''mod'' = Inr md" "py_getitem m ''op'' = Inr opn"
    "py_getitem m ''args'' = Inr as" "py_getitem0 as = Inr i"
  have unfold: "Norm_init d =
     ebind (py_assert (md = PStr ''torch'' \<or> md = PStr ''Tensor'')) (\<lambda>_.
     ebind (py_assert (opn = PStr ''norm'')) (\<lambda>_.
     ebind (py_getitem i ''shape'') (\<lambda>sh.
     ebind (py_getitem i ''dtype'') (\<lambda>ty.
     Inr \<lparr>marker = m, mod_ = md, op_ = opn, args = as, shape = sh, type = ty,
          sub = row_sub d\<rparr>))))"
    using h by (simp add: Norm_init_def)
  show "py_getitem i ''shape'' = Inr (shape c)" if "Norm_init d = Inr c"
    using that unfolding unfold by (auto simp: ebind_Inr_iff)
  show "py_getitem i ''dtype'' = Inr (type c)" if "Norm_init d = Inr c"
    using that unfolding unfold by (auto simp: ebind_Inr_iff)
  show "\<exists>e. Norm_init d = Inl e" if "py_contains ''shape'' i \<noteq> Inr True"
  proof (cases "Norm_init d")
    case (Inr c)
    then have "\<exists>sh. py_getitem i ''shape'' = Inr sh"
      unfolding unfold by (auto simp: ebind_Inr_iff)
    with that py_getitem_Inr_contains show ?thesis by blast
  qed simp
  show "\<exists>e. Norm_init d = Inl e" if "py_contains ''dtype'' i \<noteq> Inr True"
  proof (cases "Norm_init d")
    case (Inr c)
    then have "\<exists>ty. py_getitem i ''dtype'' = Inr ty"
      unfolding unfold by (auto simp: ebind_Inr_iff)
    with that py_getitem_Inr_contains show ?thesis by blast
  qed simp
  show "Norm_init d = Inr \<lparr>marker = m, mod_ = md, op_ = opn, args = as, shape = sh, type = ty,
                           sub = row_sub d\<rparr>"
    if "md = PStr ''torch'' \<or> md = PStr ''Tensor''" "opn = PStr ''norm''"
      "py_getitem i ''shape'' = Inr sh" "py_getitem i ''dtype'' = Inr ty"
    using that unfolding unfold by (auto simp: py_assert_def)
qed

text \<open>
  The theorem at the rows of \<^verbatim>\<open>torch.norm(input=x)\<close>, which is accepted, and of
  \<^verbatim>\<open>torch.norm(2)\<close>, which is rejected.
\<close>

theorem Norm_operand_witness:
  "map_sum id shape
     (Norm_init (call_row ''norm'' []
        [(''input'', Tensor (TorchTensor [10] ''torch.float16'' SNone))] 0)) =
     Inr (PTuple [PInt 10]) \<and>
   (\<exists>e. Norm_init (call_row ''norm'' [Scalar (SInt 2)] [] 0) = Inl e)"
proof
  let ?d = "call_row ''norm'' [] [(''input'', Tensor (TorchTensor [10] ''torch.float16'' SNone))] 0"
  let ?i = "named_tensor ''input'' [10] ''float16''"
  let ?m = "PDict [(''mod'', PStr ''torch''), (''op'', PStr ''norm''), (''args'', PList [?i])]"
  have 1: "row_argMarker ?d =
      argMarker ''torch'' ''norm'' []
        [(''input'', Tensor (TorchTensor [10] ''torch.float16'' SNone))] # []"
    by (simp add: call_row_def)
  have 2: "py_eval (argMarker ''torch'' ''norm'' []
        [(''input'', Tensor (TorchTensor [10] ''torch.float16'' SNone))]) = Inr ?m"
    by (simp add: producer_defs named_tensor_def)
  have 3: "py_getitem ?m ''mod'' = Inr (PStr ''torch'')" by simp
  have 4: "py_getitem ?m ''op'' = Inr (PStr ''norm'')" by simp
  have 5: "py_getitem ?m ''args'' = Inr (PList [?i])" by simp
  have 6: "py_getitem0 (PList [?i]) = Inr ?i" by simp
  have 7: "py_getitem ?i ''shape'' = Inr (PTuple [PInt 10])" by (simp add: named_tensor_def)
  have 8: "py_getitem ?i ''dtype'' = Inr (PStr ''float16'')" by (simp add: named_tensor_def)
  have "Norm_init ?d =
      Inr \<lparr>marker = ?m, mod_ = PStr ''torch'', op_ = PStr ''norm'', args = PList [?i],
           shape = PTuple [PInt 10], type = PStr ''float16'', sub = row_sub ?d\<rparr>"
    by (rule Norm_operand [OF 1 2 3 4 5 6, THEN conjunct2, THEN conjunct2, THEN conjunct2,
          rule_format, OF _ _ 7 8]) simp_all
  then show "map_sum id shape (Norm_init ?d) = Inr (PTuple [PInt 10])" by simp
next
  let ?d = "call_row ''norm'' [Scalar (SInt 2)] [] 0"
  let ?i = "scalar_desc '''' (SInt 2)"
  let ?m = "PDict [(''mod'', PStr ''torch''), (''op'', PStr ''norm''), (''args'', PList [?i])]"
  have 1: "row_argMarker ?d = argMarker ''torch'' ''norm'' [Scalar (SInt 2)] [] # []"
    by (simp add: call_row_def)
  have 2: "py_eval (argMarker ''torch'' ''norm'' [Scalar (SInt 2)] []) = Inr ?m"
    by (rule scalar_marker_eval)
  have 3: "py_getitem ?m ''mod'' = Inr (PStr ''torch'')" by simp
  have 4: "py_getitem ?m ''op'' = Inr (PStr ''norm'')" by simp
  have 5: "py_getitem ?m ''args'' = Inr (PList [?i])" by simp
  have 6: "py_getitem0 (PList [?i]) = Inr ?i" by simp
  have 7: "py_contains ''shape'' ?i \<noteq> Inr True" by (simp add: scalar_desc_def)
  show "\<exists>e. Norm_init ?d = Inl e"
    by (rule Norm_operand [OF 1 2 3 4 5 6, THEN conjunct2, THEN conjunct1, rule_format, OF 7])
qed

text \<open>
  Claim C10 as first stated, that the construction fails for every record whose first
  argument is named, fails for \<^verbatim>\<open>torch.norm(input=x)\<close> with a \<^verbatim>\<open>float16\<close> tensor of size
  (10,): the first descriptor is named \<^verbatim>\<open>input\<close>, the constructor succeeds and \<^verbatim>\<open>elems()\<close>
  is 10.
\<close>

theorem Norm_accepts_named_operand:
  "py_getitem (named_tensor ''input'' [10] ''float16'') ''name'' = Inr (PStr ''input'') \<and>
   PStr ''input'' \<noteq> PStr '''' \<and>
   map_sum id args
     (Norm_init (call_row ''norm'' []
        [(''input'', Tensor (TorchTensor [10] ''torch.float16'' SNone))] 0))
     = Inr (PList [named_tensor ''input'' [10] ''float16'']) \<and>
   map_sum id Norm_elems
     (Norm_init (call_row ''norm'' []
        [(''input'', Tensor (TorchTensor [10] ''torch.float16'' SNone))] 0))
     = Inr (Inr 10)"
  by (simp add: call_row_def Norm_init_def producer_defs py_assert_def named_tensor_def
      Norm_elems_def)

subsection \<open>How a marker is decoded\<close>

text \<open>
  Claim C2, as amended. Every constructor decodes its record by \<^verbatim>\<open>eval\<close>. On a text that
  is a literal, \<^verbatim>\<open>eval\<close> returns what the structured parser returns. A text that is no
  literal is evaluated as well: a conditional expression is no literal and has the value
  of its branch, and two texts with the same value give the same result in every
  constructor. No schema is validated: a constructor succeeds exactly when the value of
  the first text of the row passes the lookups and the assertions that the constructor
  itself makes (\<^verbatim>\<open>mod\<close>, \<^verbatim>\<open>op\<close>, \<^verbatim>\<open>args\<close>, the operand, its shape and dtype, or its value and
  type for the scalar operand of \<open>Mean\<close>), and the calculator then holds that value as its
  marker.
\<close>

theorem eval_decodes:
  "(parse_literal e = Some v \<longrightarrow> py_eval e = Inr v) \<and>
   parse_literal (EIfExp a (EBool True) b) = None \<and>
   py_eval (EIfExp a (EBool True) b) = py_eval a \<and>
   (py_eval t1 = py_eval t2 \<longrightarrow>
      Mean_init (d\<lparr>row_argMarker := t1 # r1\<rparr>) = Mean_init (d\<lparr>row_argMarker := t2 # r2\<rparr>) \<and>
      Sum_init (d\<lparr>row_argMarker := t1 # r1\<rparr>) = Sum_init (d\<lparr>row_argMarker := t2 # r2\<rparr>) \<and>
      Norm_init (d\<lparr>row_argMarker := t1 # r1\<rparr>) = Norm_init (d\<lparr>row_argMarker := t2 # r2\<rparr>)) \<and>
   (Mean_init d = Inr c \<longleftrightarrow>
     (\<exists>text rest m md as xs i pos ty.
        row_argMarker d = text # rest \<and> py_eval text = Inr m \<and>
        py_getitem m ''mod'' = Inr md \<and> (md = PStr ''torch'' \<or> md = PStr ''Tensor'') \<and>
        py_getitem m ''op'' = Inr (PStr ''mean'') \<and> py_getitem m ''args'' = Inr as \<and>
        py_iter as = Inr xs \<and> filter_name '''' xs = Inr (i # pos) \<and> length pos \<le> 1 \<and>
        ((\<exists>sh. py_contains ''shape'' i = Inr True \<and> py_getitem i ''shape'' = Inr sh \<and>
           py_getitem i ''dtype'' = Inr ty \<and>
           c = \<lparr>marker = m, mod_ = md, op_ = PStr ''mean'', args = as, shape = sh, type = ty,
                sub = row_sub d, dir = row_dir d\<rparr>) \<or>
         py_contains ''shape'' i = Inr False \<and> py_contains ''value'' i = Inr True \<and>
           py_getitem i ''type'' = Inr ty \<and>
           c = \<lparr>marker = m, mod_ = md, op_ = PStr ''mean'', args = as, shape = PTuple [PInt 1],
                type = ty, sub = row_sub d, dir = row_dir d\<rparr>))) \<and>
   (Sum_init d = Inr c' \<longleftrightarrow>
     (\<exists>text rest m md as a0 nm i sh ty.
        row_argMarker d = text # rest \<and> py_eval text = Inr m \<and>
        py_getitem m ''mod'' = Inr md \<and> (md = PStr ''torch'' \<or> md = PStr ''Tensor'') \<and>
        py_getitem m ''op'' = Inr (PStr ''sum'') \<and> py_getitem m ''args'' = Inr as \<and>
        py_getitem0 as = Inr a0 \<and> py_getitem a0 ''name'' = Inr nm \<and>
        (nm = PStr '''' \<and> i = a0 \<or>
         nm \<noteq> PStr '''' \<and>
           (\<exists>xs ys. py_iter as = Inr xs \<and> filter_name ''input'' xs = Inr (i # ys))) \<and>
        py_getitem i ''shape'' = Inr sh \<and> py_getitem i ''dtype'' = Inr ty \<and>
        c' = \<lparr>marker = m, mod_ = md, op_ = PStr ''sum'', args = as, shape = sh, type = ty,
             sub = row_sub d\<rparr>)) \<and>
   (Norm_init d = Inr c' \<longleftrightarrow>
     (\<exists>text rest m md as i sh ty.
        row_argMarker d = text # rest \<and> py_eval text = Inr m \<and>
        py_getitem m ''mod'' = Inr md \<and> (md = PStr ''torch'' \<or> md = PStr ''Tensor'') \<and>
        py_getitem m ''op'' = Inr (PStr ''norm'') \<and> py_getitem m ''args'' = Inr as \<and>
        py_getitem0 as = Inr i \<and> py_getitem i ''shape'' = Inr sh \<and>
        py_getitem i ''dtype'' = Inr ty \<and>
        c' = \<lparr>marker = m, mod_ = md, op_ = PStr ''norm'', args = as, shape = sh, type = ty,
             sub = row_sub d\<rparr>))"
proof (intro conjI impI)
  show "py_eval e = Inr v" if "parse_literal e = Some v"
    using that by (rule parse_eval)
  show "parse_literal (EIfExp a (EBool True) b) = None" by simp
  show "py_eval (EIfExp a (EBool True) b) = py_eval a" by (cases "py_eval a") simp_all
  assume t: "py_eval t1 = py_eval t2"
  show "Mean_init (d\<lparr>row_argMarker := t1 # r1\<rparr>) = Mean_init (d\<lparr>row_argMarker := t2 # r2\<rparr>)"
    by (simp add: Mean_init_def t cong: if_cong)
  show "Sum_init (d\<lparr>row_argMarker := t1 # r1\<rparr>) = Sum_init (d\<lparr>row_argMarker := t2 # r2\<rparr>)"
    by (simp add: Sum_init_def t cong: if_cong)
  show "Norm_init (d\<lparr>row_argMarker := t1 # r1\<rparr>) = Norm_init (d\<lparr>row_argMarker := t2 # r2\<rparr>)"
    by (simp add: Norm_init_def t)
qed (rule Mean_init_iff Sum_init_iff Norm_init_iff)+

text \<open>
  The theorem at the marker of \<^verbatim>\<open>torch.sum(x)\<close>, at the same marker inside a conditional
  expression, which the parser rejects and from which \<open>Sum\<close> is constructed all the same,
  and at a literal record of \<^verbatim>\<open>norm\<close> whose argument has no kind, which the schema rejects
  and from which \<open>Norm\<close> is constructed.
\<close>

theorem eval_decodes_witness:
  "parse_literal (EIfExp (argMarker ''torch'' ''sum''
       [Tensor (TorchTensor [4, 8] ''torch.float32'' (SFloat (Finite 0 0)))] [])
       (EBool True) ENone) = None \<and>
   Sum_init \<lparr>row_argMarker = [EIfExp (argMarker ''torch'' ''sum''
       [Tensor (TorchTensor [4, 8] ''torch.float32'' (SFloat (Finite 0 0)))] [])
       (EBool True) ENone], row_dir = ''fprop'', row_sub = 0\<rparr> =
     Inr (tensor_layer ''sum'' [4, 8] ''float32'' 0) \<and>
   py_eval (argMarker ''torch'' ''sum''
     [Tensor (TorchTensor [4, 8] ''torch.float32'' (SFloat (Finite 0 0)))] []) =
     Inr (marker (tensor_layer ''sum'' [4, 8] ''float32'' 0)) \<and>
   \<not> schema_ok (PDict [(''mod'', PStr ''torch''), (''op'', PStr ''norm''),
       (''args'', PList [PDict [(''name'', PStr []), (''shape'', PTuple [PInt 10]),
                                (''dtype'', PStr ''float16'')]])]) \<and>
   map_sum id marker
     (Norm_init \<lparr>row_argMarker =
        [EDict [(''mod'', EStr ''torch''), (''op'', EStr ''norm''),
           (''args'', EList [EDict [(''name'', EStr []), (''shape'', ETuple [EInt 10]),
                                    (''dtype'', EStr ''float16'')]])]],
        row_dir = ''fprop'', row_sub = 0\<rparr>) =
     Inr (PDict [(''mod'', PStr ''torch''), (''op'', PStr ''norm''),
       (''args'', PList [PDict [(''name'', PStr []), (''shape'', PTuple [PInt 10]),
                                (''dtype'', PStr ''float16'')]])])"
proof (intro conjI)
  let ?t = "argMarker ''torch'' ''sum''
       [Tensor (TorchTensor [4, 8] ''torch.float32'' (SFloat (Finite 0 0)))] []"
  let ?d = "tensor_row ''sum'' [4, 8] ''torch.float32'' 0"
  note ed = eval_decodes [where e = ?t
      and v = "marker (tensor_layer ''sum'' [4, 8] ''float32'' 0)" and a = ?t and b = ENone
      and ?t1.0 = "EIfExp ?t (EBool True) ENone" and ?t2.0 = ?t and d = ?d
      and ?r1.0 = "[]" and ?r2.0 = "[]"]
  from ed show "parse_literal (EIfExp ?t (EBool True) ENone) = None" by blast
  from ed have "Sum_init (?d\<lparr>row_argMarker := EIfExp ?t (EBool True) ENone # []\<rparr>) =
      Sum_init (?d\<lparr>row_argMarker := ?t # []\<rparr>)" by blast
  moreover have "?d\<lparr>row_argMarker := ?t # []\<rparr> = ?d" by (simp add: tensor_row_def)
  moreover have "?d\<lparr>row_argMarker := EIfExp ?t (EBool True) ENone # []\<rparr> =
      \<lparr>row_argMarker = [EIfExp ?t (EBool True) ENone], row_dir = ''fprop'', row_sub = 0\<rparr>"
    by (simp add: tensor_row_def)
  ultimately show "Sum_init \<lparr>row_argMarker = [EIfExp ?t (EBool True) ENone],
      row_dir = ''fprop'', row_sub = 0\<rparr> = Inr (tensor_layer ''sum'' [4, 8] ''float32'' 0)"
    by (simp add: Sum_init_4x8)
  have "parse_literal ?t = Some (marker (tensor_layer ''sum'' [4, 8] ''float32'' 0))"
    by (simp add: producer_defs tensor_layer_def Let_def)
  with ed show "py_eval ?t = Inr (marker (tensor_layer ''sum'' [4, 8] ''float32'' 0))" by blast
next
  show "\<not> schema_ok (PDict [(''mod'', PStr ''torch''), (''op'', PStr ''norm''),
       (''args'', PList [PDict [(''name'', PStr []), (''shape'', PTuple [PInt 10]),
                                (''dtype'', PStr ''float16'')]])])"
    by simp
next
  let ?i = "PDict [(''name'', PStr []), (''shape'', PTuple [PInt 10]),
                   (''dtype'', PStr ''float16'')]"
  let ?m = "PDict [(''mod'', PStr ''torch''), (''op'', PStr ''norm''), (''args'', PList [?i])]"
  let ?u = "EDict [(''mod'', EStr ''torch''), (''op'', EStr ''norm''),
           (''args'', EList [EDict [(''name'', EStr []), (''shape'', ETuple [EInt 10]),
                                    (''dtype'', EStr ''float16'')]])]"
  let ?d = "\<lparr>row_argMarker = [?u], row_dir = ''fprop'', row_sub = 0\<rparr>"
  let ?c = "\<lparr>marker = ?m, mod_ = PStr ''torch'', op_ = PStr ''norm'', args = PList [?i],
            shape = PTuple [PInt 10], type = PStr ''float16'', sub = row_sub ?d\<rparr>"
  have "\<exists>text rest m md as i sh ty.
        row_argMarker ?d = text # rest \<and> py_eval text = Inr m \<and>
        py_getitem m ''mod'' = Inr md \<and> (md = PStr ''torch'' \<or> md = PStr ''Tensor'') \<and>
        py_getitem m ''op'' = Inr (PStr ''norm'') \<and> py_getitem m ''args'' = Inr as \<and>
        py_getitem0 as = Inr i \<and> py_getitem i ''shape'' = Inr sh \<and>
        py_getitem i ''dtype'' = Inr ty \<and>
        ?c = \<lparr>marker = m, mod_ = md, op_ = PStr ''norm'', args = as, shape = sh, type = ty,
             sub = row_sub ?d\<rparr>"
    apply (rule exI [of _ ?u], rule exI [of _ "[]"], rule exI [of _ ?m])
    apply (rule exI [of _ "PStr ''torch''"], rule exI [of _ "PList [?i]"], rule exI [of _ ?i])
    apply (rule exI [of _ "PTuple [PInt 10]"], rule exI [of _ "PStr ''float16''"])
    apply simp
    done
  then have "Norm_init ?d = Inr ?c"
    by (rule eval_decodes [where d = ?d and c' = ?c, THEN conjunct2, THEN conjunct2,
          THEN conjunct2, THEN conjunct2, THEN conjunct2, THEN conjunct2, THEN iffD2])
  then show "map_sum id marker (Norm_init ?d) = Inr ?m" by simp
qed

text \<open>
  Claim C2 as first stated, that decoding goes through a parser that validates a schema
  and never evaluates the text as code, fails on \<open>code_text\<close>: the text is no literal, its
  argument has no kind, and \<open>Mean\<close> is constructed from it, with 32 elements, after the
  conditional expression in it has been executed.
\<close>

theorem eval_runs_code:
  "parse_literal code_text = None \<and>
   map_sum id (schema_ok \<circ> marker)
     (Mean_init \<lparr>row_argMarker = [code_text], row_dir = ''fprop'', row_sub = 0\<rparr>) =
     Inr False \<and>
   map_sum id Mean_elems
     (Mean_init \<lparr>row_argMarker = [code_text], row_dir = ''fprop'', row_sub = 0\<rparr>) =
     Inr (Inr 32)"
  by (simp add: code_text_def Mean_init_def py_assert_def Mean_elems_def)

subsection \<open>Writing a marker and reading it back\<close>

text \<open>
  Claim C6, at an input where the code departs from it. For \<^verbatim>\<open>torch.sum(x, [float('inf')])\<close>
  the producer stores the list itself as the value of the second descriptor, \<^verbatim>\<open>str\<close> prints
  its element as the bare word \<^verbatim>\<open>inf\<close>, and \<^verbatim>\<open>eval\<close> raises \<^verbatim>\<open>NameError\<close> on the marker:
  nothing is decoded, and \<open>Sum\<close> is not constructed. \<open>scalar\<close> replaces the same value by a
  string; \<open>seq\<close> does not.
\<close>

theorem inf_in_list_not_decoded:
  "argMarker ''torch'' ''sum''
     [Tensor (TorchTensor [4, 8] ''torch.float32'' SNone), Seq IsList [Scalar (SFloat PosInf)]] [] =
     EDict [(''mod'', EStr ''torch''), (''op'', EStr ''sum''),
            (''args'', EList
               [EDict [(''name'', EStr ''''), (''type'', EStr ''tensor''),
                       (''shape'', ETuple [EInt 4, EInt 8]), (''dtype'', EStr ''float32'')],
                EDict [(''name'', EStr ''''), (''type'', EStr ''list''),
                       (''value'', EList [EName ''inf''])]])] \<and>
   py_eval (argMarker ''torch'' ''sum''
     [Tensor (TorchTensor [4, 8] ''torch.float32'' SNone), Seq IsList [Scalar (SFloat PosInf)]] [])
     = Inl NameError \<and>
   Sum_init (call_row ''sum''
     [Tensor (TorchTensor [4, 8] ''torch.float32'' SNone), Seq IsList [Scalar (SFloat PosInf)]] []
     0) = Inl NameError"
  by (simp add: call_row_def Sum_init_def producer_defs)

end
